theory Spec2Isabelle
  imports Complex_Main "HOL-Library.Word"
begin

section \<open>The image editor of src/components/ImageEditor.js\<close>

text \<open>
  The component keeps its state in React state cells and changes it only through the
  handlers \<^verbatim>\<open>handleFileChange\<close>, \<^verbatim>\<open>handleClearCrop\<close>, \<^verbatim>\<open>handleEdit\<close> and
  \<^verbatim>\<open>handleUpscale\<close>. The two asynchronous handlers are embedded in three pieces each:
  the synchronous prefix up to the first \<^verbatim>\<open>await\<close> (entry), the body of the
  \<^verbatim>\<open>try\<close> block (which only computes an outcome from captured values and the
  environment) and the state updates made when the awaited promise settles.
\<close>

subsection \<open>Strings\<close>

text \<open>
  A JavaScript string is a sequence of 16-bit code units. Literals of the source that
  are ASCII are written with \<open>js\<close>; the Persian messages are listed code unit by code unit.
\<close>

type_synonym js_string = "16 word list"

definition js :: "string \<Rightarrow> js_string" where
  "js s = map (\<lambda>c. of_nat (of_char c)) s"

definition COMMA :: "16 word" where
  "COMMA = 0x2C"

definition COLON :: "16 word" where
  "COLON = 0x3A"

definition SEMICOLON :: "16 word" where
  "SEMICOLON = 0x3B"

text \<open>The line terminators of ECMAScript, which \<^verbatim>\<open>.\<close> in a regular expression does not match.\<close>

definition is_line_terminator :: "16 word \<Rightarrow> bool" where
  "is_line_terminator c = (c = 0x0A \<or> c = 0x0D \<or> c = 0x2028 \<or> c = 0x2029)"

text \<open>Line 81: the message of \<^verbatim>\<open>handleEdit\<close> when no image has been uploaded.\<close>

definition MSG_NO_IMAGE :: js_string where
  "MSG_NO_IMAGE =
     [0x644, 0x637, 0x641, 0x627, 0x20, 0x627, 0x628, 0x62A, 0x62F, 0x627, 0x20, 0x6CC,
      0x6A9, 0x20, 0x62A, 0x635, 0x648, 0x6CC, 0x631, 0x20, 0x622, 0x67E, 0x644, 0x648,
      0x62F, 0x20, 0x6A9, 0x646, 0x6CC, 0x62F, 0x2E]"

text \<open>Line 85: the message of \<^verbatim>\<open>handleEdit\<close> when the prompt is empty.\<close>

definition MSG_NO_PROMPT :: js_string where
  "MSG_NO_PROMPT =
     [0x644, 0x637, 0x641, 0x627, 0x20, 0x62F, 0x633, 0x62A, 0x648, 0x631, 0x20, 0x648,
      0x6CC, 0x631, 0x627, 0x6CC, 0x634, 0x20, 0x631, 0x627, 0x20, 0x648, 0x627, 0x631,
      0x62F, 0x20, 0x6A9, 0x646, 0x6CC, 0x62F, 0x2E]"

text \<open>Line 106: the fallback message of a failed edit.\<close>

definition MSG_UNEXPECTED :: js_string where
  "MSG_UNEXPECTED =
     [0x62E, 0x637, 0x627, 0x6CC, 0x6CC, 0x20, 0x63A, 0x6CC, 0x631, 0x645, 0x646, 0x62A,
      0x638, 0x631, 0x647, 0x20, 0x631, 0x62E, 0x20, 0x62F, 0x627, 0x62F, 0x2E]"

text \<open>Line 125: the message of \<^verbatim>\<open>handleUpscale\<close> when there is no edited image.\<close>

definition MSG_NOTHING_TO_UPSCALE :: js_string where
  "MSG_NOTHING_TO_UPSCALE =
     [0x62A, 0x635, 0x648, 0x6CC, 0x631, 0x20, 0x648, 0x6CC, 0x631, 0x627, 0x6CC, 0x634,
      0x20, 0x634, 0x62F, 0x647, 0x200C, 0x627, 0x6CC, 0x20, 0x628, 0x631, 0x627, 0x6CC,
      0x20, 0x627, 0x641, 0x632, 0x627, 0x6CC, 0x634, 0x20, 0x6A9, 0x6CC, 0x641, 0x6CC,
      0x62A, 0x20, 0x648, 0x62C, 0x648, 0x62F, 0x20, 0x646, 0x62F, 0x627, 0x631, 0x62F,
      0x2E]"

text \<open>Line 134: the message thrown when the edited image does not split into header and data.\<close>

definition MSG_INVALID_FORMAT :: js_string where
  "MSG_INVALID_FORMAT =
     [0x641, 0x631, 0x645, 0x62A, 0x20, 0x62A, 0x635, 0x648, 0x6CC, 0x631, 0x20, 0x648,
      0x6CC, 0x631, 0x627, 0x6CC, 0x634, 0x20, 0x634, 0x62F, 0x647, 0x20, 0x646, 0x627,
      0x645, 0x639, 0x62A, 0x628, 0x631, 0x20, 0x627, 0x633, 0x62A, 0x2E]"

text \<open>Line 141: the fallback message of a failed upscale.\<close>

definition MSG_UNEXPECTED_UPSCALE :: js_string where
  "MSG_UNEXPECTED_UPSCALE =
     [0x62E, 0x637, 0x627, 0x6CC, 0x6CC, 0x20, 0x63A, 0x6CC, 0x631, 0x645, 0x646, 0x62A,
      0x638, 0x631, 0x647, 0x20, 0x62F, 0x631, 0x20, 0x647, 0x646, 0x6AF, 0x627, 0x645,
      0x20, 0x627, 0x641, 0x632, 0x627, 0x6CC, 0x634, 0x20, 0x6A9, 0x6CC, 0x641, 0x6CC,
      0x62A, 0x20, 0x631, 0x62E, 0x20, 0x62F, 0x627, 0x62F, 0x2E]"

subsection \<open>Errors\<close>

text \<open>
  A thrown value is an object whose \<^verbatim>\<open>message\<close> property may be missing.
  \<^verbatim>\<open>new Error(m)\<close> is \<open>Error (Some m)\<close>.
\<close>

datatype js_error = Error (message: "js_string option")

text \<open>\<^verbatim>\<open>err.message || fallback\<close>: a missing or empty message gives the fallback.\<close>

definition message_or :: "js_error \<Rightarrow> js_string \<Rightarrow> js_string" where
  "message_or err fallback =
     (case message err of
        None \<Rightarrow> fallback
      | Some m \<Rightarrow> if m = [] then fallback else m)"

subsection \<open>Splitting a data URI (lines 35-41 and 133-136)\<close>

text \<open>\<^verbatim>\<open>s.split(sep)\<close> for a one-unit separator: every piece between separators, in order.\<close>

fun js_split :: "'a \<Rightarrow> 'a list \<Rightarrow> 'a list list" where
  "js_split sep [] = [[]]"
| "js_split sep (c # cs) =
     (if c = sep then [] # js_split sep cs
      else (case js_split sep cs of
              [] \<Rightarrow> [[c]]
            | p # ps \<Rightarrow> (c # p) # ps))"

text \<open>Reading an array element: \<^verbatim>\<open>undefined\<close> (here \<open>None\<close>) past the end.\<close>

definition element :: "'a list \<Rightarrow> nat \<Rightarrow> 'a option" where
  "element xs i = (if i < length xs then Some (xs ! i) else None)"

text \<open>
  The lazy group of \<^verbatim>\<open>/:(.*?);/\<close>, tried right after a colon: it takes code units up
  to the first semicolon and fails at a line terminator or at the end of the string.
\<close>

fun lazy_until_semicolon :: "js_string \<Rightarrow> js_string option" where
  "lazy_until_semicolon [] = None"
| "lazy_until_semicolon (c # cs) =
     (if c = SEMICOLON then Some []
      else if is_line_terminator c then None
      else map_option (\<lambda>g. c # g) (lazy_until_semicolon cs))"

text \<open>
  \<^verbatim>\<open>header.match(/:(.*?);/)\<close>: the leftmost colon from which the group matches;
  the result is the group (\<^verbatim>\<open>mimeTypeMatch[1]\<close>), \<open>None\<close> for \<^verbatim>\<open>null\<close>.
\<close>

fun mimeTypeMatch :: "js_string \<Rightarrow> js_string option" where
  "mimeTypeMatch [] = None"
| "mimeTypeMatch (c # cs) =
     (if c = COLON
      then (case lazy_until_semicolon cs of
              Some g \<Rightarrow> Some g
            | None \<Rightarrow> mimeTypeMatch cs)
      else mimeTypeMatch cs)"

text \<open>\<^verbatim>\<open>mimeTypeMatch ? mimeTypeMatch[1] : 'image/png'\<close> (lines 41 and 136).\<close>

definition mimeType_of :: "js_string \<Rightarrow> js_string" where
  "mimeType_of header =
     (case mimeTypeMatch header of
        Some m \<Rightarrow> m
      | None \<Rightarrow> js ''image/png'')"

text \<open>
  Lines 133-136 of \<^verbatim>\<open>handleUpscale\<close>: \<^verbatim>\<open>const [header, data] = editedImage.split(',')\<close>,
  the throw when either is falsy (missing or empty), and the MIME type. The result is
  the pair \<^verbatim>\<open>(data, mimeType)\<close> handed to \<^verbatim>\<open>upscaleImage\<close>.
\<close>

definition decode :: "js_string \<Rightarrow> js_error + (js_string \<times> js_string)" where
  "decode editedImage =
     (let parts = js_split COMMA editedImage in
      case (element parts 0, element parts 1) of
        (Some header, Some data) \<Rightarrow>
          if header = [] \<or> data = [] then Inl (Error (Some MSG_INVALID_FORMAT))
          else Inr (data, mimeType_of header)
      | _ \<Rightarrow> Inl (Error (Some MSG_INVALID_FORMAT)))"

text \<open>
  Modelled from the spec: \<^verbatim>\<open>encode(bytesAsText, mimeType)\<close>, the data URI of a payload
  and a MIME type. The source has no such function; it builds data URIs by the template
  \<^verbatim>\<open>`data:image/png;base64,${bytes}`\<close> only (lines 104 and 139), which is \<open>png_data_uri\<close> below,
  and \<open>encode\<close> is that template with the MIME type left open.
\<close>

definition encode :: "js_string \<Rightarrow> js_string \<Rightarrow> js_string" where
  "encode bytes mime = js ''data:'' @ mime @ js '';base64,'' @ bytes"

text \<open>Lines 104 and 139: \<^verbatim>\<open>`data:image/png;base64,${bytes}`\<close>.\<close>

definition png_data_uri :: "js_string \<Rightarrow> js_string" where
  "png_data_uri bytes = js ''data:image/png;base64,'' @ bytes"

subsection \<open>Data\<close>

text \<open>
  A JavaScript number is an IEEE 754 double. A finite double is a real number; a number
  that is not finite (Infinity, NaN) is \<open>None\<close>. Division and multiplication give the
  exact result rounded to a double. The rounding is a function of the platform and is a
  parameter here: \<open>rounded x\<close> is the double nearest to the real \<open>x\<close>, and \<open>None\<close> when
  \<open>x\<close> is too large for a finite double. A quotient by zero is Infinity or NaN, and so
  is every product with a factor that is not finite.
\<close>

definition js_divide :: "(real \<Rightarrow> real option) \<Rightarrow> real \<Rightarrow> real \<Rightarrow> real option" where
  "js_divide rounded a b = (if b = 0 then None else rounded (a / b))"

definition js_times :: "(real \<Rightarrow> real option) \<Rightarrow> real \<Rightarrow> real option \<Rightarrow> real option" where
  "js_times rounded a b =
     (case b of
        None \<Rightarrow> None
      | Some v \<Rightarrow> rounded (a * v))"

text \<open>
  Lines 11-12 assign a number to \<^verbatim>\<open>canvas.width\<close> and \<^verbatim>\<open>canvas.height\<close>. These are
  attributes of type unsigned long that reflect a content attribute with a default (300
  for the width, 150 for the height): the browser takes the integer part of the number
  modulo \<open>2 ^ 32\<close>, and the default in its place when that is above 2147483647. The
  canvas then has that many pixels.
\<close>

definition integer_part :: "real \<Rightarrow> int" where
  "integer_part v = (if 0 \<le> v then \<lfloor>v\<rfloor> else \<lceil>v\<rceil>)"

definition to_unsigned_long :: "real \<Rightarrow> nat" where
  "to_unsigned_long v = nat (integer_part v mod 2 ^ 32)"

definition canvas_dimension :: "nat \<Rightarrow> real \<Rightarrow> nat" where
  "canvas_dimension dflt v =
     (if to_unsigned_long v \<le> 2147483647 then to_unsigned_long v else dflt)"

text \<open>The crop of react-image-crop, as far as the source reads it: x, y, width, height.\<close>

record crop_region =
  crop_x :: real
  crop_y :: real
  crop_width :: real
  crop_height :: real

text \<open>The displayed \<^verbatim>\<open>img\<close> element: its natural size and its displayed size (integers in the DOM).\<close>

record image_element =
  naturalWidth :: nat
  naturalHeight :: nat
  image_width :: nat
  image_height :: nat

text \<open>The value \<^verbatim>\<open>{ base64, mimeType }\<close> that \<^verbatim>\<open>getCroppedImg\<close> and \<^verbatim>\<open>fileToBase64\<close> resolve to.\<close>

record encoded_image =
  base64 :: js_string
  mimeType :: js_string

text \<open>One call of \<^verbatim>\<open>ctx.drawImage\<close> with its nine arguments, in the order of lines 22-30.\<close>

record draw_call =
  source :: image_element
  sx :: "real option"
  sy :: "real option"
  sWidth :: "real option"
  sHeight :: "real option"
  dx :: real
  dy :: real
  dWidth :: real
  dHeight :: real

text \<open>
  The off-screen canvas: its size in pixels, the smoothing quality set on its context and
  the draw calls made on it.
\<close>

record canvas =
  canvas_width :: nat
  canvas_height :: nat
  imageSmoothingQuality :: "js_string option"
  drawn :: "draw_call list"

datatype js_file = File (file_name: js_string) (file_type: js_string)

text \<open>Line 64: \<^verbatim>\<open>{ file, previewUrl }\<close> (the field \<^verbatim>\<open>file\<close> is \<open>image_file\<close> here).\<close>

record source_image =
  image_file :: js_file
  previewUrl :: js_string

text \<open>
  What the component takes from outside: the \<^verbatim>\<open>img\<close> element behind \<^verbatim>\<open>imgRef\<close>, the
  browser (\<^verbatim>\<open>getContext('2d')\<close>, \<^verbatim>\<open>toDataURL\<close>, the rounding of its double arithmetic)
  and the three imported functions whose modules are not part of the sources
  (\<^verbatim>\<open>fileToBase64\<close>, \<^verbatim>\<open>editImage\<close>, \<^verbatim>\<open>upscaleImage\<close>). A promise that rejects is \<open>Inl\<close>.
\<close>

record environment =
  imgRef_current :: "image_element option"
  getContext_2d :: bool
  double :: "real \<Rightarrow> real option"
  toDataURL :: "canvas \<Rightarrow> js_string"
  fileToBase64 :: "js_file \<Rightarrow> js_error + encoded_image"
  editImage :: "js_string \<Rightarrow> js_string \<Rightarrow> js_string \<Rightarrow> js_error + js_string"
  upscaleImage :: "js_string \<Rightarrow> js_string \<Rightarrow> js_error + js_string"

text \<open>The calls a handler makes, in order.\<close>

datatype call =
  CallGetCroppedImg image_element crop_region
| CallFileToBase64 js_file
| CallEditImage js_string js_string js_string
| CallUpscaleImage js_string js_string

text \<open>The React state of lines 47-59 (\<^verbatim>\<open>null\<close> and \<^verbatim>\<open>undefined\<close> are \<open>None\<close>).\<close>

record editor_state =
  prompt :: js_string
  originalImage :: "source_image option"
  editedImage :: "js_string option"
  isLoading :: bool
  error :: "js_string option"
  upscaledImage :: "js_string option"
  isUpscaling :: bool
  upscaleError :: "js_string option"
  crop :: "crop_region option"
  completedCrop :: "crop_region option"

definition initial_state :: editor_state where
  "initial_state =
     \<lparr>prompt = [], originalImage = None, editedImage = None, isLoading = False,
      error = None, upscaledImage = None, isUpscaling = False, upscaleError = None,
      crop = None, completedCrop = None\<rparr>"

subsection \<open>The rasterizer (lines 9-44)\<close>

definition getCroppedImg ::
  "environment \<Rightarrow> image_element \<Rightarrow> crop_region \<Rightarrow> canvas \<times> (js_error + encoded_image)" where
  "getCroppedImg env img c =
     (let cv = \<lparr>canvas_width = canvas_dimension 300 (crop_width c),
                canvas_height = canvas_dimension 150 (crop_height c),
                imageSmoothingQuality = None, drawn = []\<rparr>
      in if \<not> getContext_2d env then (cv, Inl (Error (Some (js ''No 2d context''))))
         else
           let scaleX =
                 js_divide (double env) (real (naturalWidth img)) (real (image_width img));
               scaleY =
                 js_divide (double env) (real (naturalHeight img)) (real (image_height img));
               cv = cv\<lparr>imageSmoothingQuality := Some (js ''high'')\<rparr>;
               cv = cv\<lparr>drawn :=
                      [\<lparr>source = img,
                        sx = js_times (double env) (crop_x c) scaleX,
                        sy = js_times (double env) (crop_y c) scaleY,
                        sWidth = js_times (double env) (crop_width c) scaleX,
                        sHeight = js_times (double env) (crop_height c) scaleY,
                        dx = 0,
                        dy = 0,
                        dWidth = crop_width c,
                        dHeight = crop_height c\<rparr>]\<rparr>;
               parts = js_split COMMA (toDataURL env cv)
           in (cv,
               case (element parts 0, element parts 1) of
                 (Some header, Some data) \<Rightarrow>
                   if header = [] \<or> data = []
                   then Inl (Error (Some (js ''Could not convert canvas to base64.'')))
                   else Inr \<lparr>base64 = data, mimeType = mimeType_of header\<rparr>
               | _ \<Rightarrow> Inl (Error (Some (js ''Could not convert canvas to base64.'')))))"

subsection \<open>The handlers (lines 61-145)\<close>

text \<open>
  Lines 61-72. \<open>files\<close> is \<^verbatim>\<open>event.target.files\<close>: missing, or a list whose first element
  is read; \<open>createObjectURL\<close> is the browser's \<^verbatim>\<open>URL.createObjectURL\<close>.
\<close>

definition handleFileChange ::
  "(js_file \<Rightarrow> js_string) \<Rightarrow> js_file list option \<Rightarrow> editor_state \<Rightarrow> editor_state" where
  "handleFileChange createObjectURL files s =
     (case files of
        Some (f # rest) \<Rightarrow>
          s\<lparr>originalImage := Some \<lparr>image_file = f, previewUrl = createObjectURL f\<rparr>,
            editedImage := None,
            error := None,
            upscaledImage := None,
            upscaleError := None,
            crop := None,
            completedCrop := None\<rparr>
      | _ \<Rightarrow> s)"

text \<open>Lines 74-77.\<close>

definition handleClearCrop :: "editor_state \<Rightarrow> editor_state" where
  "handleClearCrop s = s\<lparr>crop := None, completedCrop := None\<rparr>"

text \<open>
  Lines 80-87: the two checks of \<^verbatim>\<open>handleEdit\<close>; the message of the one that fails, in
  the order of the source.
\<close>

definition handleEdit_refused :: "editor_state \<Rightarrow> js_string option" where
  "handleEdit_refused s =
     (if originalImage s = None then Some MSG_NO_IMAGE
      else if prompt s = [] then Some MSG_NO_PROMPT
      else None)"

text \<open>Lines 80-92: \<^verbatim>\<open>handleEdit\<close> up to the \<^verbatim>\<open>try\<close>.\<close>

definition handleEdit_entry :: "editor_state \<Rightarrow> editor_state" where
  "handleEdit_entry s =
     (case handleEdit_refused s of
        Some msg \<Rightarrow> s\<lparr>error := Some msg\<rparr>
      | None \<Rightarrow>
          s\<lparr>isLoading := True,
            error := None,
            editedImage := None,
            upscaledImage := None,
            upscaleError := None\<rparr>)"

text \<open>
  Line 97: \<^verbatim>\<open>completedCrop && completedCrop.width > 0 && completedCrop.height > 0 && imgRef.current\<close>;
  the image and crop handed to \<^verbatim>\<open>getCroppedImg\<close> when it holds.
\<close>

definition crop_input ::
  "environment \<Rightarrow> crop_region option \<Rightarrow> (image_element \<times> crop_region) option" where
  "crop_input env cc =
     (case cc of
        None \<Rightarrow> None
      | Some c \<Rightarrow>
          if crop_width c > 0 \<and> crop_height c > 0
          then (case imgRef_current env of
                  None \<Rightarrow> None
                | Some img \<Rightarrow> Some (img, c))
          else None)"

text \<open>
  Lines 95-103: the body of the \<^verbatim>\<open>try\<close>, on the values the callback closed over
  (\<^verbatim>\<open>originalImage\<close>, \<^verbatim>\<open>prompt\<close>, \<^verbatim>\<open>completedCrop\<close>). The result is what the body ends
  with (\<open>Inr\<close> the bytes \<^verbatim>\<open>editImage\<close> returned, \<open>Inl\<close> what was thrown) and the calls made.
\<close>

definition handleEdit_try ::
  "environment \<Rightarrow> source_image \<Rightarrow> js_string \<Rightarrow> crop_region option \<Rightarrow>
     (js_error + js_string) \<times> call list" where
  "handleEdit_try env orig p cc =
     (let (imageToEdit, calls) =
            (case crop_input env cc of
               Some (img, c) \<Rightarrow> (snd (getCroppedImg env img c), [CallGetCroppedImg img c])
             | None \<Rightarrow> (fileToBase64 env (image_file orig), [CallFileToBase64 (image_file orig)]))
      in case imageToEdit of
           Inl err \<Rightarrow> (Inl err, calls)
         | Inr enc \<Rightarrow>
             (editImage env (base64 enc) (mimeType enc) p,
              calls @ [CallEditImage (base64 enc) (mimeType enc) p]))"

text \<open>Lines 104-109: the state updates when the body has ended (success, \<^verbatim>\<open>catch\<close>, \<^verbatim>\<open>finally\<close>).\<close>

definition handleEdit_settle :: "js_error + js_string \<Rightarrow> editor_state \<Rightarrow> editor_state" where
  "handleEdit_settle outcome s =
     (case outcome of
        Inr editedImageBytes \<Rightarrow>
          s\<lparr>editedImage := Some (png_data_uri editedImageBytes), isLoading := False\<rparr>
      | Inl err \<Rightarrow>
          s\<lparr>error := Some (message_or err MSG_UNEXPECTED), isLoading := False\<rparr>)"

text \<open>\<^verbatim>\<open>handleEdit\<close> run from its entry to its end with nothing in between.\<close>

definition handleEdit :: "environment \<Rightarrow> editor_state \<Rightarrow> editor_state \<times> call list" where
  "handleEdit env s =
     (case (handleEdit_refused s, originalImage s) of
        (None, Some orig) \<Rightarrow>
          (let (outcome, calls) = handleEdit_try env orig (prompt s) (completedCrop s)
           in (handleEdit_settle outcome (handleEdit_entry s), calls))
      | _ \<Rightarrow> (handleEdit_entry s, []))"

text \<open>Line 124: \<^verbatim>\<open>!editedImage\<close>, true of a missing and of an empty string.\<close>

definition handleUpscale_refused :: "editor_state \<Rightarrow> bool" where
  "handleUpscale_refused s =
     (case editedImage s of
        None \<Rightarrow> True
      | Some uri \<Rightarrow> uri = [])"

text \<open>Lines 124-130: \<^verbatim>\<open>handleUpscale\<close> up to the \<^verbatim>\<open>try\<close>.\<close>

definition handleUpscale_entry :: "editor_state \<Rightarrow> editor_state" where
  "handleUpscale_entry s =
     (if handleUpscale_refused s then s\<lparr>upscaleError := Some MSG_NOTHING_TO_UPSCALE\<rparr>
      else s\<lparr>isUpscaling := True, upscaleError := None, upscaledImage := None\<rparr>)"

text \<open>Lines 133-138: the body of the \<^verbatim>\<open>try\<close>, on the \<^verbatim>\<open>editedImage\<close> the handler closed over.\<close>

definition handleUpscale_try ::
  "environment \<Rightarrow> js_string \<Rightarrow> (js_error + js_string) \<times> call list" where
  "handleUpscale_try env uri =
     (case decode uri of
        Inl err \<Rightarrow> (Inl err, [])
      | Inr (data, mime) \<Rightarrow> (upscaleImage env data mime, [CallUpscaleImage data mime]))"

text \<open>Lines 139-144.\<close>

definition handleUpscale_settle :: "js_error + js_string \<Rightarrow> editor_state \<Rightarrow> editor_state" where
  "handleUpscale_settle outcome s =
     (case outcome of
        Inr upscaledImageBytes \<Rightarrow>
          s\<lparr>upscaledImage := Some (png_data_uri upscaledImageBytes), isUpscaling := False\<rparr>
      | Inl err \<Rightarrow>
          s\<lparr>upscaleError := Some (message_or err MSG_UNEXPECTED_UPSCALE), isUpscaling := False\<rparr>)"

text \<open>\<^verbatim>\<open>handleUpscale\<close> run from its entry to its end with nothing in between.\<close>

definition handleUpscale :: "environment \<Rightarrow> editor_state \<Rightarrow> editor_state \<times> call list" where
  "handleUpscale env s =
     (case editedImage s of
        None \<Rightarrow> (handleUpscale_entry s, [])
      | Some uri \<Rightarrow>
          if handleUpscale_refused s then (handleUpscale_entry s, [])
          else (let (outcome, calls) = handleUpscale_try env uri
                in (handleUpscale_settle outcome (handleUpscale_entry s), calls)))"

subsection \<open>The component as a transition system\<close>

text \<open>
  What the rendered page lets the user do (lines 158-312): the \<^verbatim>\<open>disabled\<close> attributes
  and the conditions under which a control is rendered at all.
\<close>

text \<open>Lines 232 and 260: the file input and the prompt's text area are disabled while an edit is loading.\<close>

definition fileInput_disabled :: "editor_state \<Rightarrow> bool" where
  "fileInput_disabled s = isLoading s"

definition textarea_disabled :: "editor_state \<Rightarrow> bool" where
  "textarea_disabled s = isLoading s"

text \<open>Line 223: the button of \<^verbatim>\<open>handleClearCrop\<close> is rendered when \<^verbatim>\<open>completedCrop && completedCrop.width > 0\<close>.\<close>

definition clearCrop_rendered :: "editor_state \<Rightarrow> bool" where
  "clearCrop_rendered s =
     (case completedCrop s of
        None \<Rightarrow> False
      | Some c \<Rightarrow> crop_width c > 0)"

text \<open>Line 233: the crop widget is rendered when there is an original image.\<close>

definition reactCrop_rendered :: "editor_state \<Rightarrow> bool" where
  "reactCrop_rendered s = (originalImage s \<noteq> None)"

text \<open>Line 269: \<^verbatim>\<open>disabled: isLoading || !prompt || !originalImage\<close>.\<close>

definition editButton_disabled :: "editor_state \<Rightarrow> bool" where
  "editButton_disabled s = (isLoading s \<or> prompt s = [] \<or> originalImage s = None)"

text \<open>
  Lines 199 and 204: the upscale button is rendered when \<^verbatim>\<open>editedImage && !isLoading\<close>
  and is disabled while \<^verbatim>\<open>isUpscaling\<close>.
\<close>

definition upscaleButton_usable :: "editor_state \<Rightarrow> bool" where
  "upscaleButton_usable s =
     (\<not> handleUpscale_refused s \<and> \<not> isLoading s \<and> \<not> isUpscaling s)"

text \<open>
  The component's state together with the runs of the two asynchronous handlers that
  have passed their entry and have not settled yet.
\<close>

record config =
  ui :: editor_state
  editRuns :: nat
  upscaleRuns :: nat

definition initial_config :: config where
  "initial_config = \<lparr>ui = initial_state, editRuns = 0, upscaleRuns = 0\<rparr>"

text \<open>
  What can happen to the component: a user action (with the data the browser supplies),
  or the end of a run of \<^verbatim>\<open>handleEdit\<close> or \<^verbatim>\<open>handleUpscale\<close> with the outcome of its
  \<^verbatim>\<open>try\<close> body. The outcome of a settling run is left open (any bytes, any error): the
  transition system allows every outcome \<open>handleEdit_try\<close> and \<open>handleUpscale_try\<close> can
  produce in some environment, and possibly more.
\<close>

datatype event =
  FileChange "js_file list option" js_string
| ClearCrop
| CropChange crop_region
| CropComplete crop_region
| PromptChange js_string
| ClickEdit
| EditSettled "js_error + js_string"
| ClickUpscale
| UpscaleSettled "js_error + js_string"

text \<open>
  One event. With \<open>gated\<close> the page's own disabling applies, as rendered; without it
  every handler may be invoked in every state. A run can settle only when one is in flight.
  \<open>None\<close>: the event cannot happen in this state.
\<close>

fun fire :: "bool \<Rightarrow> event \<Rightarrow> config \<Rightarrow> config option" where
  "fire gated (FileChange files url) c =
     (if gated \<and> fileInput_disabled (ui c) then None
      else Some (c\<lparr>ui := handleFileChange (\<lambda>f. url) files (ui c)\<rparr>))"
| "fire gated ClearCrop c =
     (if gated \<and> \<not> clearCrop_rendered (ui c) then None
      else Some (c\<lparr>ui := handleClearCrop (ui c)\<rparr>))"
| "fire gated (CropChange percentCrop) c =
     (if gated \<and> \<not> reactCrop_rendered (ui c) then None
      else Some (c\<lparr>ui := (ui c)\<lparr>crop := Some percentCrop\<rparr>\<rparr>))"
| "fire gated (CropComplete pixelCrop) c =
     (if gated \<and> \<not> reactCrop_rendered (ui c) then None
      else Some (c\<lparr>ui := (ui c)\<lparr>completedCrop := Some pixelCrop\<rparr>\<rparr>))"
| "fire gated (PromptChange v) c =
     (if gated \<and> textarea_disabled (ui c) then None
      else Some (c\<lparr>ui := (ui c)\<lparr>prompt := v\<rparr>\<rparr>))"
| "fire gated ClickEdit c =
     (if gated \<and> editButton_disabled (ui c) then None
      else Some (c\<lparr>ui := handleEdit_entry (ui c),
                   editRuns := (if handleEdit_refused (ui c) = None then Suc (editRuns c)
                                else editRuns c)\<rparr>))"
| "fire gated (EditSettled outcome) c =
     (if editRuns c = 0 then None
      else Some (c\<lparr>ui := handleEdit_settle outcome (ui c), editRuns := editRuns c - 1\<rparr>))"
| "fire gated ClickUpscale c =
     (if gated \<and> \<not> upscaleButton_usable (ui c) then None
      else Some (c\<lparr>ui := handleUpscale_entry (ui c),
                   upscaleRuns := (if handleUpscale_refused (ui c) then upscaleRuns c
                                   else Suc (upscaleRuns c))\<rparr>))"
| "fire gated (UpscaleSettled outcome) c =
     (if upscaleRuns c = 0 then None
      else Some (c\<lparr>ui := handleUpscale_settle outcome (ui c),
                   upscaleRuns := upscaleRuns c - 1\<rparr>))"

text \<open>A sequence of events, from the left.\<close>

fun run :: "bool \<Rightarrow> event list \<Rightarrow> config \<Rightarrow> config option" where
  "run gated [] c = Some c"
| "run gated (e # es) c =
     (case fire gated e c of
        None \<Rightarrow> None
      | Some c' \<Rightarrow> run gated es c')"

subsection \<open>The state of a stage\<close>

datatype stage_status = Idle | Loading | Succeeded | Failed

definition stage_status :: "bool \<Rightarrow> js_string option \<Rightarrow> js_string option \<Rightarrow> stage_status" where
  "stage_status loading resultImage errorMessage =
     (if loading then Loading
      else if resultImage \<noteq> None then Succeeded
      else if errorMessage \<noteq> None then Failed
      else Idle)"

definition edit_stage :: "editor_state \<Rightarrow> stage_status" where
  "edit_stage s = stage_status (isLoading s) (editedImage s) (error s)"

definition upscale_stage :: "editor_state \<Rightarrow> stage_status" where
  "upscale_stage s = stage_status (isUpscaling s) (upscaledImage s) (upscaleError s)"

text \<open>
  The edges Idle \<open>\<rightarrow>\<close> Loading \<open>\<rightarrow>\<close> {Succeeded, Failed} \<open>\<rightarrow>\<close> Idle, with Loading entered again
  from Succeeded or Failed, and staying where one is.
\<close>

definition follows :: "stage_status \<Rightarrow> stage_status \<Rightarrow> bool" where
  "follows a b =
     (a = b
      \<or> (a \<noteq> Loading \<and> b = Loading)
      \<or> (a = Loading \<and> (b = Succeeded \<or> b = Failed))
      \<or> ((a = Succeeded \<or> a = Failed) \<and> b = Idle))"

text \<open>A stage that is loading holds neither a result nor an error message.\<close>

definition no_stale :: "editor_state \<Rightarrow> bool" where
  "no_stale s =
     ((isLoading s \<longrightarrow> editedImage s = None \<and> error s = None)
      \<and> (isUpscaling s \<longrightarrow> upscaledImage s = None \<and> upscaleError s = None))"

text \<open>
  With the page's disabling, a stage has a run in flight exactly while its loading flag
  is set, and never more than one.
\<close>

definition runs_match_flags :: "config \<Rightarrow> bool" where
  "runs_match_flags c =
     (editRuns c = (if isLoading (ui c) then 1 else 0)
      \<and> upscaleRuns c = (if isUpscaling (ui c) then 1 else 0))"

text \<open>The two calls that produce the image to edit (lines 98 and 100).\<close>

fun is_input_call :: "call \<Rightarrow> bool" where
  "is_input_call (CallGetCroppedImg img c) = True"
| "is_input_call (CallFileToBase64 f) = True"
| "is_input_call (CallEditImage b m p) = False"
| "is_input_call (CallUpscaleImage b m) = False"

subsection \<open>The scenarios of the specification\<close>

text \<open>
  Concrete inputs on which the theorems below are instantiated: a JPEG file, an image of
  natural size 800 x 600 displayed at 400 x 300, the crop (10, 10, 100, 50), the prompt
  \<^verbatim>\<open>remove the background person\<close>, and an environment in which every call succeeds
  and no result of the arithmetic needs rounding (as is the case for the whole numbers
  of the scenario).
\<close>

definition scenario_file :: js_file where
  "scenario_file = File (js ''photo.jpg'') (js ''image/jpeg'')"

definition scenario_image :: image_element where
  "scenario_image =
     \<lparr>naturalWidth = 800, naturalHeight = 600, image_width = 400, image_height = 300\<rparr>"

definition scenario_crop :: crop_region where
  "scenario_crop = \<lparr>crop_x = 10, crop_y = 10, crop_width = 100, crop_height = 50\<rparr>"

definition scenario_prompt :: js_string where
  "scenario_prompt = js ''remove the background person''"

definition scenario_env :: environment where
  "scenario_env =
     \<lparr>imgRef_current = Some scenario_image,
      getContext_2d = True,
      double = (\<lambda>v. Some v),
      toDataURL = (\<lambda>cv. js ''data:image/png;base64,Q1JPUA==''),
      fileToBase64 = (\<lambda>f. Inr \<lparr>base64 = js ''SlBFRw=='', mimeType = file_type f\<rparr>),
      editImage = (\<lambda>b m p. Inr (js ''RURJVA=='')),
      upscaleImage = (\<lambda>b m. Inr (js ''VVBTQ0FMRQ==''))\<rparr>"

text \<open>The state after the file has been chosen and the prompt typed.\<close>

definition scenario_state :: editor_state where
  "scenario_state =
     initial_state
       \<lparr>prompt := scenario_prompt,
        originalImage := Some \<lparr>image_file = scenario_file, previewUrl = js ''blob:photo''\<rparr>\<rparr>"

subsection \<open>Auxiliary notions for the properties\<close>

text \<open>The part of the state that belongs to the edit stage and to the user's input.\<close>

definition edit_side ::
  "editor_state \<Rightarrow> js_string \<times> source_image option \<times> js_string option \<times> bool
     \<times> js_string option \<times> crop_region option \<times> crop_region option" where
  "edit_side s =
     (prompt s, originalImage s, editedImage s, isLoading s, error s, crop s, completedCrop s)"

text \<open>Every stored edit result was built by the template of line 104.\<close>

definition edited_is_png :: "editor_state \<Rightarrow> bool" where
  "edited_is_png s =
     (\<forall>uri. editedImage s = Some uri \<longrightarrow> (\<exists>bytes. uri = png_data_uri bytes))"

text \<open>
  The handlers as whole operations, each run from its entry to its end before the next
  one starts, in any state (no disabling applies).
\<close>

datatype operation =
  RunEdit environment
| RunUpscale environment
| SelectNewSource "js_file list option" js_string
| ResetCrop
| SetPrompt js_string
| SetCompletedCrop crop_region

fun perform :: "operation \<Rightarrow> editor_state \<Rightarrow> editor_state" where
  "perform (RunEdit env) s = fst (handleEdit env s)"
| "perform (RunUpscale env) s = fst (handleUpscale env s)"
| "perform (SelectNewSource files url) s = handleFileChange (\<lambda>f. url) files s"
| "perform ResetCrop s = handleClearCrop s"
| "perform (SetPrompt v) s = s\<lparr>prompt := v\<rparr>"
| "perform (SetCompletedCrop c) s = s\<lparr>completedCrop := Some c\<rparr>"

fun perform_all :: "operation list \<Rightarrow> editor_state \<Rightarrow> editor_state" where
  "perform_all [] s = s"
| "perform_all (op # ops) s = perform_all ops (perform op s)"

section \<open>Properties\<close>

subsection \<open>Splitting and matching\<close>

lemma js_split_not_Nil: "js_split sep s \<noteq> []"
  by (induction s) (auto split: list.splits)

lemma js_split_no_sep: "sep \<notin> set s \<Longrightarrow> js_split sep s = [s]"
  by (induction s) auto

lemma js_split_at_sep:
  "sep \<notin> set h \<Longrightarrow> js_split sep (h @ sep # r) = h # js_split sep r"
  by (induction h) auto

lemma js_split_parts_no_sep: "p \<in> set (js_split sep s) \<Longrightarrow> sep \<notin> set p"
proof (induction s arbitrary: p)
  case Nil
  then show ?case by simp
next
  case (Cons c cs)
  show ?case
  proof (cases "c = sep")
    case True
    with Cons show ?thesis by auto
  next
    case False
    obtain q qs where q: "js_split sep cs = q # qs"
      using js_split_not_Nil [of sep cs] by (cases "js_split sep cs") auto
    with False Cons.prems have "p = c # q \<or> p \<in> set qs" by auto
    then show ?thesis
    proof
      assume "p = c # q"
      moreover have "sep \<notin> set q" using Cons.IH [of q] q by simp
      ultimately show ?thesis using False by auto
    next
      assume "p \<in> set qs"
      then show ?thesis using Cons.IH [of p] q by simp
    qed
  qed
qed

lemma element_in_set: "element xs i = Some x \<Longrightarrow> x \<in> set xs"
  by (auto simp: element_def split: if_splits)

lemma lazy_until_semicolon_append:
  "SEMICOLON \<notin> set m \<Longrightarrow> \<forall>c \<in> set m. \<not> is_line_terminator c \<Longrightarrow>
   lazy_until_semicolon (m @ SEMICOLON # r) = Some m"
  by (induction m) auto

lemma lazy_until_semicolon_Some:
  "lazy_until_semicolon s = Some g \<Longrightarrow>
   SEMICOLON \<notin> set g \<and> (\<forall>c \<in> set g. \<not> is_line_terminator c) \<and> set g \<subseteq> set s"
  by (induction s arbitrary: g) (auto split: if_splits)

lemma mimeTypeMatch_Some:
  "mimeTypeMatch s = Some g \<Longrightarrow>
   SEMICOLON \<notin> set g \<and> (\<forall>c \<in> set g. \<not> is_line_terminator c) \<and> set g \<subseteq> set s"
proof (induction s)
  case Nil
  then show ?case by simp
next
  case (Cons c cs)
  then show ?case
    using lazy_until_semicolon_Some [of cs g]
    by (auto split: if_splits option.splits)
qed

lemma lazy_no_semicolon: "SEMICOLON \<notin> set s \<Longrightarrow> lazy_until_semicolon s = None"
  by (induction s) auto

lemma mimeTypeMatch_no_colon: "COLON \<notin> set s \<Longrightarrow> mimeTypeMatch s = None"
  by (induction s) auto

lemma mimeTypeMatch_no_semicolon: "SEMICOLON \<notin> set s \<Longrightarrow> mimeTypeMatch s = None"
  by (induction s) (auto simp: lazy_no_semicolon)

lemma mimeTypeMatch_data:
  "SEMICOLON \<notin> set m \<Longrightarrow> \<forall>c \<in> set m. \<not> is_line_terminator c \<Longrightarrow>
   mimeTypeMatch (js ''data:'' @ m @ SEMICOLON # r) = Some m"
  by (simp add: js_def COLON_def lazy_until_semicolon_append)

lemma png_clean:
  "COMMA \<notin> set (js ''image/png'')" "SEMICOLON \<notin> set (js ''image/png'')"
  "\<forall>c \<in> set (js ''image/png''). \<not> is_line_terminator c"
  by (simp_all add: js_def COMMA_def SEMICOLON_def is_line_terminator_def)

lemma mimeType_of_clean:
  "SEMICOLON \<notin> set (mimeType_of h)"
  "\<forall>c \<in> set (mimeType_of h). \<not> is_line_terminator c"
  "COMMA \<notin> set h \<Longrightarrow> COMMA \<notin> set (mimeType_of h)"
  using mimeTypeMatch_Some [of h] png_clean
  by (auto simp: mimeType_of_def split: option.splits)

lemma decode_Inr:
  assumes a: "decode uri = Inr (d, m)"
  shows "d \<noteq> [] \<and> COMMA \<notin> set d \<and> COMMA \<notin> set m \<and> SEMICOLON \<notin> set m
     \<and> (\<forall>c \<in> set m. \<not> is_line_terminator c)"
proof (cases "element (js_split COMMA uri) 0")
  case None
  with a show ?thesis by (simp add: decode_def)
next
  case h: (Some h)
  show ?thesis
  proof (cases "element (js_split COMMA uri) 1")
    case None
    with a h show ?thesis by (simp add: decode_def)
  next
    case d': (Some d')
    from a h d' have eq: "d' = d" "m = mimeType_of h" "d \<noteq> []"
      by (simp_all add: decode_def split: if_splits)
    have "h \<in> set (js_split COMMA uri)" "d \<in> set (js_split COMMA uri)"
      using h d' eq(1) by (simp_all add: element_in_set)
    then have "COMMA \<notin> set h" "COMMA \<notin> set d"
      by (simp_all add: js_split_parts_no_sep)
    then show ?thesis
      using eq mimeType_of_clean [of h] by simp
  qed
qed

lemma decode_split:
  assumes "COMMA \<notin> set h" "COMMA \<notin> set d" "h \<noteq> []" "d \<noteq> []"
    and "r = [] \<or> (\<exists>r'. r = COMMA # r')"
  shows "decode (h @ COMMA # d @ r) = Inr (d, mimeType_of h)"
proof -
  have "\<exists>ps. js_split COMMA (d @ r) = d # ps"
  proof (cases r)
    case Nil
    then show ?thesis using assms by (simp add: js_split_no_sep)
  next
    case (Cons x xs)
    then have "r = COMMA # xs" using assms by auto
    then show ?thesis using assms by (simp add: js_split_at_sep)
  qed
  then obtain ps where "js_split COMMA (h @ COMMA # d @ r) = h # d # ps"
    using assms by (auto simp: js_split_at_sep)
  then show ?thesis using assms by (simp add: decode_def element_def)
qed

lemma decode_no_comma:
  "COMMA \<notin> set uri \<Longrightarrow> decode uri = Inl (Error (Some MSG_INVALID_FORMAT))"
  by (simp add: decode_def js_split_no_sep element_def)

lemma decode_split_empty:
  assumes "COMMA \<notin> set h" "COMMA \<notin> set d" "h = [] \<or> d = []"
    and "r = [] \<or> (\<exists>r'. r = COMMA # r')"
  shows "decode (h @ COMMA # d @ r) = Inl (Error (Some MSG_INVALID_FORMAT))"
proof -
  have "\<exists>ps. js_split COMMA (d @ r) = d # ps"
  proof (cases r)
    case Nil
    then show ?thesis using assms by (simp add: js_split_no_sep)
  next
    case (Cons x xs)
    then have "r = COMMA # xs" using assms by auto
    then show ?thesis using assms by (simp add: js_split_at_sep)
  qed
  then obtain ps where "js_split COMMA (h @ COMMA # d @ r) = h # d # ps"
    using assms by (auto simp: js_split_at_sep)
  then show ?thesis using assms by (auto simp: decode_def element_def)
qed

lemma encode_shape:
  "encode bytes mime = (js ''data:'' @ mime @ js '';base64'') @ COMMA # bytes @ []"
  by (simp add: encode_def js_def COMMA_def)

lemma encode_header:
  "COMMA \<notin> set mime \<Longrightarrow> COMMA \<notin> set (js ''data:'' @ mime @ js '';base64'')"
  "js ''data:'' @ mime @ js '';base64'' \<noteq> []"
  "js ''data:'' @ mime @ js '';base64'' = js ''data:'' @ mime @ SEMICOLON # js ''base64''"
  by (simp_all add: js_def COMMA_def SEMICOLON_def)

subsection \<open>The payload codec\<close>

lemma getCroppedImg_decodes:
  assumes "getContext_2d env"
  shows "snd (getCroppedImg env img c) =
     (case decode (toDataURL env (fst (getCroppedImg env img c))) of
        Inl err \<Rightarrow> Inl (Error (Some (js ''Could not convert canvas to base64.'')))
      | Inr (d, m) \<Rightarrow> Inr \<lparr>base64 = d, mimeType = m\<rparr>)"
  using assms
  by (simp add: getCroppedImg_def decode_def Let_def split: option.splits)

text \<open>
  C6. Decoding a data URI that has no comma throws the error of line 134, and so does
  decoding one whose piece before the first comma or whose piece after it is empty.
  Decoding a URI whose header (the piece before the first comma) is not matched by
  \<^verbatim>\<open>/:(.*?);/\<close> does not throw: the payload is the piece up to the next comma, and the
  MIME type is \<^verbatim>\<open>image/png\<close>. The rasterizer (lines 35-42) treats the data URL of its
  canvas in the same way, with its own message when the split fails.
\<close>

theorem decode_without_comma_fails_without_type_is_png:
  "(COMMA \<notin> set uri \<longrightarrow> decode uri = Inl (Error (Some MSG_INVALID_FORMAT)))
   \<and> ((h = [] \<or> p = []) \<and> COMMA \<notin> set h \<and> COMMA \<notin> set p
        \<and> (r = [] \<or> (\<exists>r'. r = COMMA # r'))
      \<longrightarrow> decode (h @ COMMA # p @ r) = Inl (Error (Some MSG_INVALID_FORMAT)))
   \<and> (header \<noteq> [] \<and> payload \<noteq> [] \<and> COMMA \<notin> set header \<and> COMMA \<notin> set payload
        \<and> (rest = [] \<or> (\<exists>r'. rest = COMMA # r')) \<and> mimeTypeMatch header = None
      \<longrightarrow> decode (header @ COMMA # payload @ rest) = Inr (payload, js ''image/png''))
   \<and> (getContext_2d env
      \<longrightarrow> snd (getCroppedImg env img c) =
           (case decode (toDataURL env (fst (getCroppedImg env img c))) of
              Inl err \<Rightarrow> Inl (Error (Some (js ''Could not convert canvas to base64.'')))
            | Inr (d, m) \<Rightarrow> Inr \<lparr>base64 = d, mimeType = m\<rparr>))"
proof (intro conjI impI)
  assume "COMMA \<notin> set uri"
  then show "decode uri = Inl (Error (Some MSG_INVALID_FORMAT))"
    by (rule decode_no_comma)
next
  assume "(h = [] \<or> p = []) \<and> COMMA \<notin> set h \<and> COMMA \<notin> set p
        \<and> (r = [] \<or> (\<exists>r'. r = COMMA # r'))"
  then show "decode (h @ COMMA # p @ r) = Inl (Error (Some MSG_INVALID_FORMAT))"
    by (intro decode_split_empty) auto
next
  assume a: "header \<noteq> [] \<and> payload \<noteq> [] \<and> COMMA \<notin> set header \<and> COMMA \<notin> set payload
        \<and> (rest = [] \<or> (\<exists>r'. rest = COMMA # r')) \<and> mimeTypeMatch header = None"
  then have "decode (header @ COMMA # payload @ rest) = Inr (payload, mimeType_of header)"
    by (intro decode_split) auto
  then show "decode (header @ COMMA # payload @ rest) = Inr (payload, js ''image/png'')"
    using a by (simp add: mimeType_of_def)
next
  assume "getContext_2d env"
  then show "snd (getCroppedImg env img c) =
           (case decode (toDataURL env (fst (getCroppedImg env img c))) of
              Inl err \<Rightarrow> Inl (Error (Some (js ''Could not convert canvas to base64.'')))
            | Inr (d, m) \<Rightarrow> Inr \<lparr>base64 = d, mimeType = m\<rparr>)"
    by (rule getCroppedImg_decodes)
qed

text \<open>
  C6 at concrete inputs: a bare base64 text, a data URI with nothing after its comma,
  the header \<^verbatim>\<open>data\<close> with the payload \<^verbatim>\<open>QUJD\<close>, and the rasterizer in the scenario's
  environment.
\<close>

theorem decode_without_comma_fails_without_type_is_png_witness:
  "decode (js ''iVBORw0KGgo='') = Inl (Error (Some MSG_INVALID_FORMAT))
   \<and> decode (js ''data:image/png;base64'' @ COMMA # [] @ [])
       = Inl (Error (Some MSG_INVALID_FORMAT))
   \<and> decode (js ''data'' @ COMMA # js ''QUJD'' @ []) = Inr (js ''QUJD'', js ''image/png'')
   \<and> snd (getCroppedImg scenario_env scenario_image scenario_crop)
       = Inr \<lparr>base64 = js ''Q1JPUA=='', mimeType = js ''image/png''\<rparr>"
proof -
  have d: "decode (js ''data:image/png;base64,Q1JPUA=='')
      = Inr (js ''Q1JPUA=='', js ''image/png'')"
    by code_simp
  have u: "toDataURL scenario_env cv = js ''data:image/png;base64,Q1JPUA==''" for cv
    by (simp add: scenario_env_def)
  have g: "getContext_2d scenario_env"
    by (simp add: scenario_env_def)
  show ?thesis
    using g decode_without_comma_fails_without_type_is_png
            [where uri = "js ''iVBORw0KGgo=''" and h = "js ''data:image/png;base64''"
               and p = "[]" and r = "[]" and header = "js ''data''" and payload = "js ''QUJD''"
               and rest = "[]" and env = scenario_env and img = scenario_image
               and c = scenario_crop]
    by (simp add: u d) (simp add: js_def COMMA_def COLON_def)
qed

text \<open>
  C7, as stated: decoding the encoded pair gives the pair back for every non-empty
  payload and every MIME string. It does not: with the MIME type \<^verbatim>\<open>image/png\<close> the payload
  \<^verbatim>\<open>a,b\<close> comes back as \<^verbatim>\<open>a\<close>, and with the payload \<^verbatim>\<open>QUJD\<close> the MIME type
  \<^verbatim>\<open>text/plain;charset=utf-8\<close> comes back as \<^verbatim>\<open>text/plain\<close>.
\<close>

theorem decode_encode_counterexample:
  "js ''a,b'' \<noteq> []
   \<and> decode (encode (js ''a,b'') (js ''image/png'')) = Inr (js ''a'', js ''image/png'')
   \<and> decode (encode (js ''a,b'') (js ''image/png'')) \<noteq> Inr (js ''a,b'', js ''image/png'')
   \<and> js ''QUJD'' \<noteq> []
   \<and> decode (encode (js ''QUJD'') (js ''text/plain;charset=utf-8''))
       = Inr (js ''QUJD'', js ''text/plain'')
   \<and> decode (encode (js ''QUJD'') (js ''text/plain;charset=utf-8''))
       \<noteq> Inr (js ''QUJD'', js ''text/plain;charset=utf-8'')"
  by code_simp

text \<open>
  C7, amended: decoding the encoded pair gives the pair back exactly when the payload is
  non-empty and has no comma, and the MIME type has no comma, no semicolon and no line
  terminator.
\<close>

theorem decode_encode_identity_iff:
  "decode (encode bytes mime) = Inr (bytes, mime) \<longleftrightarrow>
     bytes \<noteq> [] \<and> COMMA \<notin> set bytes \<and> COMMA \<notin> set mime \<and> SEMICOLON \<notin> set mime
     \<and> (\<forall>c \<in> set mime. \<not> is_line_terminator c)"
proof
  assume "decode (encode bytes mime) = Inr (bytes, mime)"
  then show "bytes \<noteq> [] \<and> COMMA \<notin> set bytes \<and> COMMA \<notin> set mime \<and> SEMICOLON \<notin> set mime
     \<and> (\<forall>c \<in> set mime. \<not> is_line_terminator c)"
    by (rule decode_Inr)
next
  assume a: "bytes \<noteq> [] \<and> COMMA \<notin> set bytes \<and> COMMA \<notin> set mime \<and> SEMICOLON \<notin> set mime
     \<and> (\<forall>c \<in> set mime. \<not> is_line_terminator c)"
  then have "decode (encode bytes mime)
      = Inr (bytes, mimeType_of (js ''data:'' @ mime @ js '';base64''))"
    unfolding encode_shape using encode_header(1,2) [of mime]
    by (intro decode_split) auto
  moreover have "mimeType_of (js ''data:'' @ mime @ js '';base64'') = mime"
  proof -
    have "mimeTypeMatch (js ''data:'' @ mime @ SEMICOLON # js ''base64'') = Some mime"
      using a by (intro mimeTypeMatch_data) auto
    then show ?thesis by (simp only: encode_header(3) mimeType_of_def option.case)
  qed
  ultimately show "decode (encode bytes mime) = Inr (bytes, mime)" by simp
qed

theorem decode_encode_identity_iff_witness:
  "decode (encode (js ''QUJD'') (js ''image/jpeg'')) = Inr (js ''QUJD'', js ''image/jpeg'')"
  using decode_encode_identity_iff [of "js ''QUJD''" "js ''image/jpeg''"]
  by (simp add: js_def COMMA_def SEMICOLON_def is_line_terminator_def)

subsection \<open>The handlers\<close>

lemma handleEdit_refused_None:
  "handleEdit_refused s = None \<longleftrightarrow> originalImage s \<noteq> None \<and> prompt s \<noteq> []"
  by (simp add: handleEdit_refused_def)

lemma handleEdit_entry_started:
  "handleEdit_refused s = None \<Longrightarrow>
   handleEdit_entry s =
     s\<lparr>isLoading := True, error := None, editedImage := None, upscaledImage := None,
       upscaleError := None\<rparr>"
  by (simp add: handleEdit_entry_def)

lemma handleEdit_entry_refused:
  "handleEdit_refused s = Some msg \<Longrightarrow> handleEdit_entry s = s\<lparr>error := Some msg\<rparr>"
  by (simp add: handleEdit_entry_def)

lemma handleUpscale_entry_started:
  "\<not> handleUpscale_refused s \<Longrightarrow>
   handleUpscale_entry s = s\<lparr>isUpscaling := True, upscaleError := None, upscaledImage := None\<rparr>"
  by (simp add: handleUpscale_entry_def)

lemma handleEdit_started:
  "handleEdit_refused s = None \<Longrightarrow>
   \<exists>orig. originalImage s = Some orig \<and>
     handleEdit env s =
       (handleEdit_settle (fst (handleEdit_try env orig (prompt s) (completedCrop s)))
          (handleEdit_entry s),
        snd (handleEdit_try env orig (prompt s) (completedCrop s)))"
  by (cases "originalImage s")
     (simp_all add: handleEdit_def handleEdit_refused_def split_beta split: if_splits)

lemma handleEdit_not_started:
  "handleEdit_refused s = Some msg \<Longrightarrow> handleEdit env s = (s\<lparr>error := Some msg\<rparr>, [])"
  by (cases "originalImage s") (simp_all add: handleEdit_def handleEdit_entry_def)

lemma handleUpscale_started:
  "\<not> handleUpscale_refused s \<Longrightarrow>
   \<exists>uri. editedImage s = Some uri \<and>
     handleUpscale env s =
       (handleUpscale_settle (fst (handleUpscale_try env uri)) (handleUpscale_entry s),
        snd (handleUpscale_try env uri))"
  by (cases "editedImage s") (simp_all add: handleUpscale_def handleUpscale_refused_def split_beta)

lemma handleUpscale_not_started:
  "handleUpscale_refused s \<Longrightarrow>
   handleUpscale env s = (s\<lparr>upscaleError := Some MSG_NOTHING_TO_UPSCALE\<rparr>, [])"
  by (cases "editedImage s") (simp_all add: handleUpscale_def handleUpscale_entry_def)

lemma handleEdit_settle_fields:
  "prompt (handleEdit_settle out s) = prompt s"
  "originalImage (handleEdit_settle out s) = originalImage s"
  "isLoading (handleEdit_settle out s) = False"
  "upscaledImage (handleEdit_settle out s) = upscaledImage s"
  "isUpscaling (handleEdit_settle out s) = isUpscaling s"
  "upscaleError (handleEdit_settle out s) = upscaleError s"
  "crop (handleEdit_settle out s) = crop s"
  "completedCrop (handleEdit_settle out s) = completedCrop s"
  by (cases out; simp add: handleEdit_settle_def)+

lemma handleEdit_settle_result:
  "editedImage (handleEdit_settle out s) =
     (case out of Inr bytes \<Rightarrow> Some (png_data_uri bytes) | Inl err \<Rightarrow> editedImage s)"
  "error (handleEdit_settle out s) =
     (case out of Inr bytes \<Rightarrow> error s | Inl err \<Rightarrow> Some (message_or err MSG_UNEXPECTED))"
  by (cases out; simp add: handleEdit_settle_def)+

lemma handleUpscale_settle_fields:
  "prompt (handleUpscale_settle out s) = prompt s"
  "originalImage (handleUpscale_settle out s) = originalImage s"
  "editedImage (handleUpscale_settle out s) = editedImage s"
  "isLoading (handleUpscale_settle out s) = isLoading s"
  "error (handleUpscale_settle out s) = error s"
  "isUpscaling (handleUpscale_settle out s) = False"
  "crop (handleUpscale_settle out s) = crop s"
  "completedCrop (handleUpscale_settle out s) = completedCrop s"
  by (cases out; simp add: handleUpscale_settle_def)+

lemma handleUpscale_settle_result:
  "upscaledImage (handleUpscale_settle out s) =
     (case out of Inr bytes \<Rightarrow> Some (png_data_uri bytes) | Inl err \<Rightarrow> upscaledImage s)"
  "upscaleError (handleUpscale_settle out s) =
     (case out of Inr bytes \<Rightarrow> upscaleError s
      | Inl err \<Rightarrow> Some (message_or err MSG_UNEXPECTED_UPSCALE))"
  by (cases out; simp add: handleUpscale_settle_def)+

lemma png_data_uri_not_Nil: "png_data_uri bytes \<noteq> []"
  by (simp add: png_data_uri_def js_def)

subsection \<open>Starting an edit\<close>

text \<open>
  C1, as stated: on entry, \<^verbatim>\<open>handleEdit\<close> clears the entire upscale stage, its loading
  flag included. It does not touch \<^verbatim>\<open>isUpscaling\<close>: the edit button is enabled while an
  upscale is in flight, and after a click on it the upscale stage is still loading.
  The events: choose a file, type the prompt, click edit, the edit succeeds, click
  upscale, click edit again.
\<close>

theorem handleEdit_entry_keeps_isUpscaling_counterexample:
  "run True [FileChange (Some [scenario_file]) (js ''blob:photo''), PromptChange scenario_prompt,
             ClickEdit, EditSettled (Inr (js ''RURJVA=='')), ClickUpscale, ClickEdit]
     initial_config
   = Some \<lparr>ui = scenario_state\<lparr>isLoading := True, isUpscaling := True\<rparr>,
           editRuns = 1, upscaleRuns = 1\<rparr>"
  by (simp add: initial_config_def initial_state_def scenario_state_def scenario_prompt_def
      fileInput_disabled_def textarea_disabled_def editButton_disabled_def
      upscaleButton_usable_def handleFileChange_def handleEdit_entry_def handleEdit_refused_def
      handleEdit_settle_def handleUpscale_entry_def handleUpscale_refused_def
      png_data_uri_not_Nil js_def)

text \<open>
  C1, amended: with an image present and a non-empty prompt, the entry of \<^verbatim>\<open>handleEdit\<close>
  sets \<^verbatim>\<open>isLoading\<close> and clears \<^verbatim>\<open>error\<close>, \<^verbatim>\<open>editedImage\<close>, \<^verbatim>\<open>upscaledImage\<close> and
  \<^verbatim>\<open>upscaleError\<close>; it leaves \<^verbatim>\<open>isUpscaling\<close> as it was. So after an edit that succeeded and
  an upscale that succeeded (each run to its end), the entry of a second edit leaves the
  upscale stage fully cleared: not loading, no result, no error.
\<close>

theorem handleEdit_entry_invalidates:
  assumes "originalImage s \<noteq> None" and "prompt s \<noteq> []"
  shows "handleEdit_entry s =
           s\<lparr>isLoading := True, error := None, editedImage := None, upscaledImage := None,
             upscaleError := None\<rparr>
         \<and> isUpscaling (handleEdit_entry s) = isUpscaling s
         \<and> (editedImage (fst (handleEdit env1 s)) \<noteq> None
              \<and> upscaledImage (fst (handleUpscale env2 (fst (handleEdit env1 s)))) \<noteq> None
            \<longrightarrow> handleEdit_entry (fst (handleUpscale env2 (fst (handleEdit env1 s))))
                  = (fst (handleUpscale env2 (fst (handleEdit env1 s))))
                      \<lparr>isLoading := True, error := None, editedImage := None,
                       upscaledImage := None, isUpscaling := False, upscaleError := None\<rparr>)"
proof -
  have started: "handleEdit_refused s = None"
    using assms by (simp add: handleEdit_refused_None)
  then have entry: "handleEdit_entry s =
      s\<lparr>isLoading := True, error := None, editedImage := None, upscaledImage := None,
        upscaleError := None\<rparr>"
    by (rule handleEdit_entry_started)
  define s1 where "s1 = fst (handleEdit env1 s)"
  define s2 where "s2 = fst (handleUpscale env2 s1)"
  obtain out1 where s1: "s1 = handleEdit_settle out1 (handleEdit_entry s)"
    using handleEdit_started [OF started, of env1] by (auto simp: s1_def)
  have s1_kept: "originalImage s1 = originalImage s" "prompt s1 = prompt s"
    "upscaledImage s1 = None"
    by (simp_all add: s1 handleEdit_settle_fields entry)
  have "handleEdit_entry s2 =
      s2\<lparr>isLoading := True, error := None, editedImage := None,
         upscaledImage := None, isUpscaling := False, upscaleError := None\<rparr>"
    if ok: "editedImage s1 \<noteq> None" "upscaledImage s2 \<noteq> None"
  proof -
    have run: "\<not> handleUpscale_refused s1"
    proof
      assume "handleUpscale_refused s1"
      then have "s2 = s1\<lparr>upscaleError := Some MSG_NOTHING_TO_UPSCALE\<rparr>"
        by (simp add: s2_def handleUpscale_not_started)
      then show False using ok s1_kept by simp
    qed
    then obtain out2 where s2: "s2 = handleUpscale_settle out2 (handleUpscale_entry s1)"
      using handleUpscale_started [OF run, of env2] by (auto simp: s2_def)
    have kept: "originalImage s2 = originalImage s" "prompt s2 = prompt s" "\<not> isUpscaling s2"
      by (simp_all add: s2 handleUpscale_settle_fields handleUpscale_entry_started [OF run] s1_kept)
    then have "handleEdit_refused s2 = None"
      using assms by (simp add: handleEdit_refused_None)
    then have "handleEdit_entry s2 =
       s2\<lparr>isLoading := True, error := None, editedImage := None, upscaledImage := None,
         upscaleError := None\<rparr>"
      by (rule handleEdit_entry_started)
    then show ?thesis using kept(3) by simp
  qed
  then show ?thesis
    using entry by (simp add: s1_def s2_def)
qed

text \<open>C1, amended, in the scenario: edit, upscale, and the entry of a second edit.\<close>

theorem handleEdit_entry_invalidates_witness:
  "originalImage scenario_state \<noteq> None \<and> prompt scenario_state \<noteq> []
   \<and> editedImage (fst (handleEdit scenario_env scenario_state)) \<noteq> None
   \<and> upscaledImage
        (fst (handleUpscale scenario_env (fst (handleEdit scenario_env scenario_state)))) \<noteq> None
   \<and> handleEdit_entry
        (fst (handleUpscale scenario_env (fst (handleEdit scenario_env scenario_state))))
       = scenario_state\<lparr>isLoading := True\<rparr>"
proof -
  have e: "fst (handleEdit scenario_env scenario_state)
      = scenario_state\<lparr>editedImage := Some (png_data_uri (js ''RURJVA==''))\<rparr>"
    by (simp add: handleEdit_def handleEdit_refused_def handleEdit_entry_def handleEdit_try_def
        handleEdit_settle_def crop_input_def scenario_state_def scenario_env_def initial_state_def
        scenario_prompt_def js_def)
  have d: "decode (png_data_uri (js ''RURJVA=='')) = Inr (js ''RURJVA=='', js ''image/png'')"
    by code_simp
  have u: "fst (handleUpscale scenario_env
                 (scenario_state\<lparr>editedImage := Some (png_data_uri (js ''RURJVA==''))\<rparr>))
      = scenario_state\<lparr>editedImage := Some (png_data_uri (js ''RURJVA=='')),
          upscaledImage := Some (png_data_uri (js ''VVBTQ0FMRQ==''))\<rparr>"
    by (simp add: handleUpscale_def handleUpscale_refused_def handleUpscale_entry_def
        handleUpscale_try_def handleUpscale_settle_def d png_data_uri_not_Nil
        scenario_state_def scenario_env_def initial_state_def)
  have p: "originalImage scenario_state \<noteq> None \<and> prompt scenario_state \<noteq> []"
    by (simp add: scenario_state_def scenario_prompt_def js_def)
  show ?thesis
    using p handleEdit_entry_invalidates [of scenario_state scenario_env scenario_env]
    by (simp add: e u) (simp add: scenario_state_def initial_state_def)
qed

subsection \<open>Choosing a new file\<close>

text \<open>
  C2, as stated: for every prior state, \<^verbatim>\<open>handleFileChange\<close> leaves both loading flags
  false. It does not touch them: the file input is enabled while an upscale is in flight,
  and after a new file is chosen the upscale stage is still loading. The events: choose a
  file, type the prompt, click edit, the edit succeeds, click upscale, choose another file.
\<close>

theorem handleFileChange_keeps_isUpscaling_counterexample:
  "run True [FileChange (Some [scenario_file]) (js ''blob:photo''), PromptChange scenario_prompt,
             ClickEdit, EditSettled (Inr (js ''RURJVA=='')), ClickUpscale,
             FileChange (Some [File (js ''other.png'') (js ''image/png'')]) (js ''blob:other'')]
     initial_config
   = Some \<lparr>ui = scenario_state
                 \<lparr>originalImage :=
                    Some \<lparr>image_file = File (js ''other.png'') (js ''image/png''),
                          previewUrl = js ''blob:other''\<rparr>,
                  isUpscaling := True\<rparr>,
           editRuns = 0, upscaleRuns = 1\<rparr>"
  by (simp add: initial_config_def initial_state_def scenario_state_def scenario_prompt_def
      fileInput_disabled_def textarea_disabled_def editButton_disabled_def
      upscaleButton_usable_def handleFileChange_def handleEdit_entry_def handleEdit_refused_def
      handleEdit_settle_def handleUpscale_entry_def handleUpscale_refused_def
      png_data_uri_not_Nil js_def)

text \<open>
  C2, amended: for every prior state, \<^verbatim>\<open>handleFileChange\<close> with a file replaces
  \<^verbatim>\<open>originalImage\<close>, clears \<^verbatim>\<open>crop\<close> and \<^verbatim>\<open>completedCrop\<close>, and clears the result image
  and the error message of both stages; it leaves both loading flags as they were, so a
  stage that was not loading ends idle and a stage that was loading stays loading.
\<close>

theorem handleFileChange_resets:
  "handleFileChange createObjectURL (Some (f # fs)) s =
     s\<lparr>originalImage := Some \<lparr>image_file = f, previewUrl = createObjectURL f\<rparr>,
       editedImage := None, error := None, upscaledImage := None, upscaleError := None,
       crop := None, completedCrop := None\<rparr>
   \<and> isLoading (handleFileChange createObjectURL (Some (f # fs)) s) = isLoading s
   \<and> isUpscaling (handleFileChange createObjectURL (Some (f # fs)) s) = isUpscaling s
   \<and> edit_stage (handleFileChange createObjectURL (Some (f # fs)) s)
       = (if isLoading s then Loading else Idle)
   \<and> upscale_stage (handleFileChange createObjectURL (Some (f # fs)) s)
       = (if isUpscaling s then Loading else Idle)"
  by (simp add: handleFileChange_def edit_stage_def upscale_stage_def stage_status_def)

text \<open>C2, amended, on the first file chosen in the initial state.\<close>

theorem handleFileChange_resets_witness:
  "handleFileChange (\<lambda>f. js ''blob:photo'') (Some [scenario_file]) initial_state
     = scenario_state\<lparr>prompt := []\<rparr>"
  using handleFileChange_resets [of "\<lambda>f. js ''blob:photo''" scenario_file "[]" initial_state]
  by (simp add: scenario_state_def initial_state_def)

subsection \<open>The rasterizer\<close>

lemma canvas_dimension_in_range:
  assumes "0 \<le> v" and "v < 2 ^ 31"
  shows "canvas_dimension dflt v = nat \<lfloor>v\<rfloor>"
proof -
  have lo: "0 \<le> \<lfloor>v\<rfloor>" using assms(1) by simp
  have "v < of_int 2147483648" using assms(2) by simp
  then have hi: "\<lfloor>v\<rfloor> < 2147483648" by (simp only: floor_less_iff)
  have "\<lfloor>v\<rfloor> mod 4294967296 = \<lfloor>v\<rfloor>"
    using lo hi by (intro mod_pos_pos_trivial) linarith+
  then have "to_unsigned_long v = nat \<lfloor>v\<rfloor>"
    using assms(1) by (simp add: to_unsigned_long_def integer_part_def)
  moreover have "nat \<lfloor>v\<rfloor> \<le> 2147483647" using lo hi by linarith
  ultimately show ?thesis by (simp add: canvas_dimension_def)
qed

lemma canvas_dimension_whole:
  "n < 2 ^ 31 \<Longrightarrow> canvas_dimension dflt (real n) = n"
  using canvas_dimension_in_range [of "real n" dflt] by simp

lemma getCroppedImg_canvas:
  "getContext_2d env \<Longrightarrow>
   fst (getCroppedImg env img c) =
     \<lparr>canvas_width = canvas_dimension 300 (crop_width c),
      canvas_height = canvas_dimension 150 (crop_height c),
      imageSmoothingQuality = Some (js ''high''),
      drawn =
        [\<lparr>source = img,
          sx = js_times (double env) (crop_x c)
                 (js_divide (double env) (real (naturalWidth img)) (real (image_width img))),
          sy = js_times (double env) (crop_y c)
                 (js_divide (double env) (real (naturalHeight img)) (real (image_height img))),
          sWidth = js_times (double env) (crop_width c)
                 (js_divide (double env) (real (naturalWidth img)) (real (image_width img))),
          sHeight = js_times (double env) (crop_height c)
                 (js_divide (double env) (real (naturalHeight img)) (real (image_height img))),
          dx = 0, dy = 0, dWidth = crop_width c, dHeight = crop_height c\<rparr>]\<rparr>"
  by (simp add: getCroppedImg_def Let_def)

text \<open>
  C3, as stated: for every crop region the destination raster has exactly the size
  (crop.width, crop.height). The canvas has a whole number of pixels: for the crop of
  width 100.7 and height 50.5 it is 100 x 50.
\<close>

theorem getCroppedImg_canvas_size_counterexample:
  "canvas_width (fst (getCroppedImg scenario_env scenario_image
       \<lparr>crop_x = 10, crop_y = 10, crop_width = 1007 / 10, crop_height = 101 / 2\<rparr>)) = 100
   \<and> canvas_height (fst (getCroppedImg scenario_env scenario_image
       \<lparr>crop_x = 10, crop_y = 10, crop_width = 1007 / 10, crop_height = 101 / 2\<rparr>)) = 50
   \<and> real (canvas_width (fst (getCroppedImg scenario_env scenario_image
       \<lparr>crop_x = 10, crop_y = 10, crop_width = 1007 / 10, crop_height = 101 / 2\<rparr>)))
       \<noteq> crop_width \<lparr>crop_x = 10, crop_y = 10, crop_width = 1007 / 10, crop_height = 101 / 2\<rparr>
   \<and> real (canvas_height (fst (getCroppedImg scenario_env scenario_image
       \<lparr>crop_x = 10, crop_y = 10, crop_width = 1007 / 10, crop_height = 101 / 2\<rparr>)))
       \<noteq> crop_height \<lparr>crop_x = 10, crop_y = 10, crop_width = 1007 / 10, crop_height = 101 / 2\<rparr>"
proof -
  have g: "getContext_2d scenario_env" by (simp add: scenario_env_def)
  have w: "canvas_dimension 300 (1007 / 10) = 100"
    by (simp add: canvas_dimension_in_range)
  have h: "canvas_dimension 150 (101 / 2) = 50"
    by (simp add: canvas_dimension_in_range)
  show ?thesis
    by (simp add: getCroppedImg_canvas [OF g] w h)
qed

text \<open>
  C3, amended: when a 2-D context is obtained, \<^verbatim>\<open>getCroppedImg\<close> assigns the crop's width
  and height (displayed coordinates, not scaled) to the canvas, whose size is then their
  integer parts when they lie between 0 and \<open>2 ^ 31\<close>, so exactly the crop's size when
  that is whole-numbered. It sets high smoothing quality and makes one draw call of the
  image: into the destination at \<open>(0, 0)\<close> of the crop's width and height, from the source
  rectangle at \<open>(x * scaleX, y * scaleY)\<close> of size \<open>(width * scaleX, height * scaleY)\<close>,
  with \<open>scaleX = naturalWidth / width\<close> and \<open>scaleY = naturalHeight / height\<close> of the image,
  each quotient and product rounded to a double; where the displayed width (height) is 0,
  or the quotient is not finite, the horizontal (vertical) source numbers are not finite. For the crop (10, 10, 100, 50)
  on the 800 x 600 image displayed at 400 x 300 the source rectangle is
  (20, 20, 200, 100) and the canvas 100 x 50, whenever 2, 20, 100 and 200 are doubles.
\<close>

theorem getCroppedImg_canvas_and_draw_call:
  assumes "getContext_2d env"
  shows "canvas_width (fst (getCroppedImg env img c)) = canvas_dimension 300 (crop_width c)
    \<and> canvas_height (fst (getCroppedImg env img c)) = canvas_dimension 150 (crop_height c)
    \<and> (0 \<le> crop_width c \<and> crop_width c < 2 ^ 31
         \<longrightarrow> canvas_width (fst (getCroppedImg env img c)) = nat \<lfloor>crop_width c\<rfloor>)
    \<and> (0 \<le> crop_height c \<and> crop_height c < 2 ^ 31
         \<longrightarrow> canvas_height (fst (getCroppedImg env img c)) = nat \<lfloor>crop_height c\<rfloor>)
    \<and> (crop_width c = real w \<and> w < 2 ^ 31
         \<longrightarrow> canvas_width (fst (getCroppedImg env img c)) = w)
    \<and> (crop_height c = real h \<and> h < 2 ^ 31
         \<longrightarrow> canvas_height (fst (getCroppedImg env img c)) = h)
    \<and> imageSmoothingQuality (fst (getCroppedImg env img c)) = Some (js ''high'')
    \<and> (\<exists>drawImage.
          drawn (fst (getCroppedImg env img c)) = [drawImage]
          \<and> source drawImage = img
          \<and> dx drawImage = 0 \<and> dy drawImage = 0
          \<and> dWidth drawImage = crop_width c \<and> dHeight drawImage = crop_height c
          \<and> (image_width img = 0 \<longrightarrow> sx drawImage = None \<and> sWidth drawImage = None)
          \<and> (image_height img = 0 \<longrightarrow> sy drawImage = None \<and> sHeight drawImage = None)
          \<and> (image_width img \<noteq> 0
                \<and> double env (real (naturalWidth img) / real (image_width img)) = None
              \<longrightarrow> sx drawImage = None \<and> sWidth drawImage = None)
          \<and> (image_height img \<noteq> 0
                \<and> double env (real (naturalHeight img) / real (image_height img)) = None
              \<longrightarrow> sy drawImage = None \<and> sHeight drawImage = None)
          \<and> (\<forall>scaleX. image_width img \<noteq> 0
                \<and> double env (real (naturalWidth img) / real (image_width img)) = Some scaleX
              \<longrightarrow> sx drawImage = double env (crop_x c * scaleX)
                  \<and> sWidth drawImage = double env (crop_width c * scaleX))
          \<and> (\<forall>scaleY. image_height img \<noteq> 0
                \<and> double env (real (naturalHeight img) / real (image_height img)) = Some scaleY
              \<longrightarrow> sy drawImage = double env (crop_y c * scaleY)
                  \<and> sHeight drawImage = double env (crop_height c * scaleY)))
    \<and> (double env 2 = Some 2 \<and> double env 20 = Some 20 \<and> double env 100 = Some 100
          \<and> double env 200 = Some 200
         \<longrightarrow> fst (getCroppedImg env scenario_image scenario_crop) =
              \<lparr>canvas_width = 100, canvas_height = 50,
               imageSmoothingQuality = Some (js ''high''),
               drawn = [\<lparr>source = scenario_image, sx = Some 20, sy = Some 20,
                         sWidth = Some 200, sHeight = Some 100, dx = 0, dy = 0,
                         dWidth = 100, dHeight = 50\<rparr>]\<rparr>)"
proof -
  note cv = getCroppedImg_canvas [OF assms]
  have size: "canvas_width (fst (getCroppedImg env img c)) = canvas_dimension 300 (crop_width c)"
    "canvas_height (fst (getCroppedImg env img c)) = canvas_dimension 150 (crop_height c)"
    by (simp_all add: cv)
  have range: "0 \<le> crop_width c \<and> crop_width c < 2 ^ 31
         \<longrightarrow> canvas_width (fst (getCroppedImg env img c)) = nat \<lfloor>crop_width c\<rfloor>"
    "0 \<le> crop_height c \<and> crop_height c < 2 ^ 31
         \<longrightarrow> canvas_height (fst (getCroppedImg env img c)) = nat \<lfloor>crop_height c\<rfloor>"
    by (simp_all add: size canvas_dimension_in_range)
  have whole: "crop_width c = real w \<and> w < 2 ^ 31
         \<longrightarrow> canvas_width (fst (getCroppedImg env img c)) = w"
    "crop_height c = real h \<and> h < 2 ^ 31
         \<longrightarrow> canvas_height (fst (getCroppedImg env img c)) = h"
    by (simp_all add: size canvas_dimension_whole)
  have quality: "imageSmoothingQuality (fst (getCroppedImg env img c)) = Some (js ''high'')"
    by (simp add: cv)
  have call: "\<exists>drawImage.
          drawn (fst (getCroppedImg env img c)) = [drawImage]
          \<and> source drawImage = img
          \<and> dx drawImage = 0 \<and> dy drawImage = 0
          \<and> dWidth drawImage = crop_width c \<and> dHeight drawImage = crop_height c
          \<and> (image_width img = 0 \<longrightarrow> sx drawImage = None \<and> sWidth drawImage = None)
          \<and> (image_height img = 0 \<longrightarrow> sy drawImage = None \<and> sHeight drawImage = None)
          \<and> (image_width img \<noteq> 0
                \<and> double env (real (naturalWidth img) / real (image_width img)) = None
              \<longrightarrow> sx drawImage = None \<and> sWidth drawImage = None)
          \<and> (image_height img \<noteq> 0
                \<and> double env (real (naturalHeight img) / real (image_height img)) = None
              \<longrightarrow> sy drawImage = None \<and> sHeight drawImage = None)
          \<and> (\<forall>scaleX. image_width img \<noteq> 0
                \<and> double env (real (naturalWidth img) / real (image_width img)) = Some scaleX
              \<longrightarrow> sx drawImage = double env (crop_x c * scaleX)
                  \<and> sWidth drawImage = double env (crop_width c * scaleX))
          \<and> (\<forall>scaleY. image_height img \<noteq> 0
                \<and> double env (real (naturalHeight img) / real (image_height img)) = Some scaleY
              \<longrightarrow> sy drawImage = double env (crop_y c * scaleY)
                  \<and> sHeight drawImage = double env (crop_height c * scaleY))"
    by (simp add: cv js_divide_def js_times_def)
  have scenario: "double env 2 = Some 2 \<and> double env 20 = Some 20 \<and> double env 100 = Some 100
          \<and> double env 200 = Some 200
         \<longrightarrow> fst (getCroppedImg env scenario_image scenario_crop) =
              \<lparr>canvas_width = 100, canvas_height = 50,
               imageSmoothingQuality = Some (js ''high''),
               drawn = [\<lparr>source = scenario_image, sx = Some 20, sy = Some 20,
                         sWidth = Some 200, sHeight = Some 100, dx = 0, dy = 0,
                         dWidth = 100, dHeight = 50\<rparr>]\<rparr>"
  proof
    assume d: "double env 2 = Some 2 \<and> double env 20 = Some 20 \<and> double env 100 = Some 100
          \<and> double env 200 = Some 200"
    have w: "canvas_dimension 300 100 = 100" "canvas_dimension 150 50 = 50"
      using canvas_dimension_whole [of 100 300] canvas_dimension_whole [of 50 150] by simp_all
    show "fst (getCroppedImg env scenario_image scenario_crop) =
              \<lparr>canvas_width = 100, canvas_height = 50,
               imageSmoothingQuality = Some (js ''high''),
               drawn = [\<lparr>source = scenario_image, sx = Some 20, sy = Some 20,
                         sWidth = Some 200, sHeight = Some 100, dx = 0, dy = 0,
                         dWidth = 100, dHeight = 50\<rparr>]\<rparr>"
      using d
      by (simp add: getCroppedImg_canvas [OF assms] scenario_image_def scenario_crop_def
          js_divide_def js_times_def w)
  qed
  show ?thesis
    using size range whole quality call scenario by blast
qed

text \<open>
  C3, amended, in the scenario: the crop (10, 10, 100, 50) on the 800 x 600 image
  displayed at 400 x 300 samples the source rectangle (20, 20, 200, 100) into a 100 x 50
  canvas.
\<close>

theorem getCroppedImg_canvas_and_draw_call_witness:
  "fst (getCroppedImg scenario_env scenario_image scenario_crop) =
     \<lparr>canvas_width = 100, canvas_height = 50, imageSmoothingQuality = Some (js ''high''),
      drawn = [\<lparr>source = scenario_image, sx = Some 20, sy = Some 20, sWidth = Some 200,
                sHeight = Some 100, dx = 0, dy = 0, dWidth = 100, dHeight = 50\<rparr>]\<rparr>
   \<and> crop_width scenario_crop = real 100 \<and> crop_height scenario_crop = real 50
   \<and> image_width scenario_image \<noteq> 0 \<and> image_height scenario_image \<noteq> 0"
proof -
  have g: "getContext_2d scenario_env" by (simp add: scenario_env_def)
  have d: "double scenario_env v = Some v" for v by (simp add: scenario_env_def)
  show ?thesis
    using getCroppedImg_canvas_and_draw_call
            [OF g, where img = scenario_image and c = scenario_crop and w = 100 and h = 50]
    by (simp add: d scenario_crop_def scenario_image_def)
qed

subsection \<open>The input of an edit\<close>

lemma handleEdit_try_calls:
  "filter is_input_call (snd (handleEdit_try env orig p cc)) =
     (case crop_input env cc of
        Some (img, c) \<Rightarrow> [CallGetCroppedImg img c]
      | None \<Rightarrow> [CallFileToBase64 (image_file orig)])"
  by (simp add: handleEdit_try_def split: option.splits sum.splits prod.splits)

text \<open>
  C4. A run of \<^verbatim>\<open>handleEdit\<close> that passes its two checks makes exactly one of the two
  input calls: \<^verbatim>\<open>getCroppedImg\<close> on the displayed image and the completed crop when the
  crop is present with positive width and height and the image element is available,
  and \<^verbatim>\<open>fileToBase64\<close> on the file of the original image otherwise, in particular when
  there is no completed crop.
\<close>

theorem handleEdit_one_input_path:
  assumes "originalImage s = Some orig" and "prompt s \<noteq> []"
  shows "(\<forall>img c. completedCrop s = Some c \<and> crop_width c > 0 \<and> crop_height c > 0
              \<and> imgRef_current env = Some img
            \<longrightarrow> filter is_input_call (snd (handleEdit env s)) = [CallGetCroppedImg img c])
       \<and> (completedCrop s = None
           \<or> (\<exists>c. completedCrop s = Some c \<and> \<not> (crop_width c > 0 \<and> crop_height c > 0))
           \<or> imgRef_current env = None
            \<longrightarrow> filter is_input_call (snd (handleEdit env s))
                 = [CallFileToBase64 (image_file orig)])
       \<and> length (filter is_input_call (snd (handleEdit env s))) = 1"
proof -
  have "handleEdit_refused s = None"
    using assms by (simp add: handleEdit_refused_def)
  then have calls:
    "snd (handleEdit env s) = snd (handleEdit_try env orig (prompt s) (completedCrop s))"
    using handleEdit_started [of s env] assms by auto
  show ?thesis
    unfolding calls handleEdit_try_calls
    by (auto simp: crop_input_def split: option.splits)
qed

text \<open>
  C4 in the scenario: without a crop the file is read, and with the crop
  (10, 10, 100, 50) the rasterizer is called.
\<close>

theorem handleEdit_one_input_path_witness:
  "filter is_input_call (snd (handleEdit scenario_env scenario_state))
     = [CallFileToBase64 scenario_file]
   \<and> filter is_input_call
        (snd (handleEdit scenario_env (scenario_state\<lparr>completedCrop := Some scenario_crop\<rparr>)))
     = [CallGetCroppedImg scenario_image scenario_crop]"
  using handleEdit_one_input_path
          [of scenario_state "\<lparr>image_file = scenario_file, previewUrl = js ''blob:photo''\<rparr>"
             scenario_env]
        handleEdit_one_input_path
          [of "scenario_state\<lparr>completedCrop := Some scenario_crop\<rparr>"
             "\<lparr>image_file = scenario_file, previewUrl = js ''blob:photo''\<rparr>" scenario_env]
  by (simp add: scenario_state_def initial_state_def scenario_prompt_def js_def scenario_env_def
      scenario_crop_def)

subsection \<open>Refused runs\<close>

text \<open>
  C5. A run of \<^verbatim>\<open>handleEdit\<close> without an original image, or with an image and an empty
  prompt, only sets \<^verbatim>\<open>error\<close> to the message of the check that failed: \<^verbatim>\<open>isLoading\<close> is
  left as it was and no call is made. A run of \<^verbatim>\<open>handleUpscale\<close> without an edited image
  only sets \<^verbatim>\<open>upscaleError\<close> to the message of line 125: \<^verbatim>\<open>isUpscaling\<close> is left as it
  was and no call is made. The messages are not empty.
\<close>

theorem refused_runs_do_not_load_or_call:
  "(originalImage s = None \<longrightarrow> handleEdit env s = (s\<lparr>error := Some MSG_NO_IMAGE\<rparr>, []))
   \<and> (originalImage s \<noteq> None \<and> prompt s = []
        \<longrightarrow> handleEdit env s = (s\<lparr>error := Some MSG_NO_PROMPT\<rparr>, []))
   \<and> (originalImage s = None \<or> prompt s = []
        \<longrightarrow> isLoading (fst (handleEdit env s)) = isLoading s
            \<and> fst (handleEdit env s) = handleEdit_entry s)
   \<and> (editedImage s = None
        \<longrightarrow> handleUpscale env s = (s\<lparr>upscaleError := Some MSG_NOTHING_TO_UPSCALE\<rparr>, [])
            \<and> isUpscaling (fst (handleUpscale env s)) = isUpscaling s
            \<and> fst (handleUpscale env s) = handleUpscale_entry s)
   \<and> MSG_NO_IMAGE \<noteq> [] \<and> MSG_NO_PROMPT \<noteq> [] \<and> MSG_NOTHING_TO_UPSCALE \<noteq> []"
proof -
  have a: "handleEdit env s = (s\<lparr>error := Some MSG_NO_IMAGE\<rparr>, [])" if "originalImage s = None"
    using that by (intro handleEdit_not_started) (simp add: handleEdit_refused_def)
  have b: "handleEdit env s = (s\<lparr>error := Some MSG_NO_PROMPT\<rparr>, [])"
    if "originalImage s \<noteq> None \<and> prompt s = []"
    using that by (intro handleEdit_not_started) (auto simp: handleEdit_refused_def)
  have c: "handleEdit_entry s = s\<lparr>error := handleEdit_refused s\<rparr>"
    if "originalImage s = None \<or> prompt s = []"
    using that by (auto simp: handleEdit_entry_def handleEdit_refused_def)
  have d: "handleUpscale env s = (s\<lparr>upscaleError := Some MSG_NOTHING_TO_UPSCALE\<rparr>, [])"
    and d': "handleUpscale_entry s = s\<lparr>upscaleError := Some MSG_NOTHING_TO_UPSCALE\<rparr>"
    if "editedImage s = None"
    using that
    by (simp_all add: handleUpscale_not_started handleUpscale_refused_def handleUpscale_entry_def)
  have e: "MSG_NO_IMAGE \<noteq> [] \<and> MSG_NO_PROMPT \<noteq> [] \<and> MSG_NOTHING_TO_UPSCALE \<noteq> []"
    by (simp add: MSG_NO_IMAGE_def MSG_NO_PROMPT_def MSG_NOTHING_TO_UPSCALE_def)
  show ?thesis
    using a b c d d' e by (cases "originalImage s") (auto simp: handleEdit_refused_def)
qed

text \<open>
  C5 at concrete states: the initial state (no image), the scenario's state with the
  prompt emptied, and the scenario's state (no edited image).
\<close>

theorem refused_runs_do_not_load_or_call_witness:
  "handleEdit scenario_env initial_state = (initial_state\<lparr>error := Some MSG_NO_IMAGE\<rparr>, [])
   \<and> handleEdit scenario_env (scenario_state\<lparr>prompt := []\<rparr>)
       = (scenario_state\<lparr>prompt := [], error := Some MSG_NO_PROMPT\<rparr>, [])
   \<and> \<not> isLoading (fst (handleEdit scenario_env initial_state))
   \<and> handleUpscale scenario_env scenario_state
       = (scenario_state\<lparr>upscaleError := Some MSG_NOTHING_TO_UPSCALE\<rparr>, [])
   \<and> \<not> isUpscaling (fst (handleUpscale scenario_env scenario_state))"
  using refused_runs_do_not_load_or_call [of initial_state scenario_env]
        refused_runs_do_not_load_or_call [of "scenario_state\<lparr>prompt := []\<rparr>" scenario_env]
        refused_runs_do_not_load_or_call [of scenario_state scenario_env]
  by (simp add: scenario_state_def initial_state_def)

subsection \<open>What an upscale leaves alone\<close>

text \<open>
  C8. Nothing \<^verbatim>\<open>handleUpscale\<close> does changes the prompt, the original image, the crop,
  the completed crop, or the edit stage's \<^verbatim>\<open>editedImage\<close>, \<^verbatim>\<open>isLoading\<close> and \<^verbatim>\<open>error\<close>:
  not its entry, not the updates when it settles (with a result or with an error), and
  not the whole run. A run that is not refused changes exactly three fields on entry: it
  sets \<^verbatim>\<open>isUpscaling\<close> and clears \<^verbatim>\<open>upscaleError\<close> and \<^verbatim>\<open>upscaledImage\<close>.
\<close>

theorem handleUpscale_frame:
  "edit_side (handleUpscale_entry s) = edit_side s
   \<and> edit_side (handleUpscale_settle out s) = edit_side s
   \<and> edit_side (fst (handleUpscale env s)) = edit_side s
   \<and> (\<not> handleUpscale_refused s \<longrightarrow>
        handleUpscale_entry s
          = s\<lparr>isUpscaling := True, upscaleError := None, upscaledImage := None\<rparr>)"
proof -
  have entry: "edit_side (handleUpscale_entry s') = edit_side s'" for s'
    by (simp add: handleUpscale_entry_def edit_side_def)
  have settle: "edit_side (handleUpscale_settle out' s') = edit_side s'" for out' s'
    by (simp add: handleUpscale_settle_fields edit_side_def)
  have run: "edit_side (fst (handleUpscale env s)) = edit_side s"
  proof (cases "handleUpscale_refused s")
    case True
    then show ?thesis by (simp add: handleUpscale_not_started edit_side_def)
  next
    case False
    then show ?thesis
      using handleUpscale_started [OF False, of env] entry settle by auto
  qed
  show ?thesis
    using entry settle run by (simp add: handleUpscale_entry_started)
qed

text \<open>C8 on the scenario's state after a successful edit.\<close>

theorem handleUpscale_frame_witness:
  "\<not> handleUpscale_refused
       (scenario_state\<lparr>editedImage := Some (png_data_uri (js ''RURJVA==''))\<rparr>)
   \<and> handleUpscale_entry (scenario_state\<lparr>editedImage := Some (png_data_uri (js ''RURJVA==''))\<rparr>)
     = scenario_state\<lparr>editedImage := Some (png_data_uri (js ''RURJVA=='')), isUpscaling := True\<rparr>
   \<and> edit_side (fst (handleUpscale scenario_env
         (scenario_state\<lparr>editedImage := Some (png_data_uri (js ''RURJVA==''))\<rparr>)))
     = edit_side (scenario_state\<lparr>editedImage := Some (png_data_uri (js ''RURJVA==''))\<rparr>)"
  using handleUpscale_frame
          [of "scenario_state\<lparr>editedImage := Some (png_data_uri (js ''RURJVA==''))\<rparr>"
             "Inr []" scenario_env]
  by (simp add: handleUpscale_refused_def png_data_uri_not_Nil scenario_state_def
      initial_state_def)

subsection \<open>The edited image is always a PNG data URI\<close>

lemma png_data_uri_split:
  "js_split COMMA (png_data_uri bytes) = js ''data:image/png;base64'' # js_split COMMA bytes"
proof -
  have "png_data_uri bytes = js ''data:image/png;base64'' @ COMMA # bytes"
    by (simp add: png_data_uri_def js_def COMMA_def)
  moreover have "COMMA \<notin> set (js ''data:image/png;base64'')"
    by (simp add: js_def COMMA_def)
  ultimately show ?thesis by (simp add: js_split_at_sep)
qed

lemma mimeType_of_png_header: "mimeType_of (js ''data:image/png;base64'') = js ''image/png''"
  by code_simp

lemma decode_png_data_uri:
  "decode (png_data_uri bytes) =
     (if hd (js_split COMMA bytes) = [] then Inl (Error (Some MSG_INVALID_FORMAT))
      else Inr (hd (js_split COMMA bytes), js ''image/png''))"
proof -
  obtain p ps where "js_split COMMA bytes = p # ps"
    using js_split_not_Nil [of COMMA bytes] by (cases "js_split COMMA bytes") auto
  then show ?thesis
    by (simp add: decode_def png_data_uri_split element_def mimeType_of_png_header)
       (simp add: js_def)
qed

lemma handleUpscale_try_png:
  "CallUpscaleImage d m \<in> set (snd (handleUpscale_try env (png_data_uri bytes))) \<Longrightarrow>
   m = js ''image/png''"
  by (auto simp: handleUpscale_try_def decode_png_data_uri split: if_splits)

lemma fire_edited_is_png:
  "edited_is_png (ui c) \<Longrightarrow> fire gated e c = Some c' \<Longrightarrow> edited_is_png (ui c')"
proof (cases e)
  case (EditSettled out)
  assume "edited_is_png (ui c)" "fire gated e c = Some c'"
  then show ?thesis using EditSettled
    by (cases out) (auto simp: edited_is_png_def handleEdit_settle_def split: if_splits)
next
  case (UpscaleSettled out)
  assume "edited_is_png (ui c)" "fire gated e c = Some c'"
  then show ?thesis using UpscaleSettled
    by (auto simp: edited_is_png_def handleUpscale_settle_fields split: if_splits)
qed (auto simp: edited_is_png_def handleFileChange_def handleClearCrop_def handleEdit_entry_def
      handleUpscale_entry_def split: if_splits option.splits list.splits)

lemma run_edited_is_png:
  "edited_is_png (ui c) \<Longrightarrow> run gated es c = Some c' \<Longrightarrow> edited_is_png (ui c')"
proof (induction es arbitrary: c)
  case Nil
  then show ?case by simp
next
  case (Cons e es)
  then show ?case
    by (auto split: option.splits dest: fire_edited_is_png)
qed

text \<open>
  C10. In every state the component can reach (with or without the page's disabling),
  an edited image that is present was built by the template of line 104: the piece before
  its first comma is \<^verbatim>\<open>data:image/png;base64\<close>. So every call of \<^verbatim>\<open>upscaleImage\<close> that
  \<^verbatim>\<open>handleUpscale\<close> makes on it passes the MIME type \<^verbatim>\<open>image/png\<close>, whatever the type
  of the uploaded file.
\<close>

theorem editedImage_always_png:
  assumes "run gated es initial_config = Some c" and "editedImage (ui c) = Some uri"
  shows "(\<exists>bytes. uri = png_data_uri bytes)
     \<and> element (js_split COMMA uri) 0 = Some (js ''data:image/png;base64'')
     \<and> (\<forall>env d m. CallUpscaleImage d m \<in> set (snd (handleUpscale_try env uri))
            \<longrightarrow> m = js ''image/png'')
     \<and> (\<forall>env d m. CallUpscaleImage d m \<in> set (snd (handleUpscale env (ui c)))
            \<longrightarrow> m = js ''image/png'')"
proof -
  have "edited_is_png (ui initial_config)"
    by (simp add: edited_is_png_def initial_config_def initial_state_def)
  then have "edited_is_png (ui c)"
    using assms(1) by (rule run_edited_is_png)
  then obtain bytes where uri: "uri = png_data_uri bytes"
    using assms(2) by (auto simp: edited_is_png_def)
  have calls: "snd (handleUpscale env (ui c)) = snd (handleUpscale_try env uri)" for env
    using assms(2) by (simp add: handleUpscale_def handleUpscale_refused_def uri
        png_data_uri_not_Nil split_beta)
  show ?thesis
    unfolding calls unfolding uri
    by (auto simp: png_data_uri_split element_def dest: handleUpscale_try_png)
qed

text \<open>
  C10 in the scenario: after the edit of a JPEG file has succeeded, the upscale call is
  made with \<^verbatim>\<open>image/png\<close>.
\<close>

theorem editedImage_always_png_witness:
  "run True [FileChange (Some [scenario_file]) (js ''blob:photo''), PromptChange scenario_prompt,
             ClickEdit, EditSettled (Inr (js ''RURJVA==''))]
     initial_config
   = Some \<lparr>ui = scenario_state\<lparr>editedImage := Some (png_data_uri (js ''RURJVA==''))\<rparr>,
           editRuns = 0, upscaleRuns = 0\<rparr>
   \<and> file_type scenario_file = js ''image/jpeg''
   \<and> element (js_split COMMA (png_data_uri (js ''RURJVA==''))) 0
       = Some (js ''data:image/png;base64'')
   \<and> snd (handleUpscale scenario_env
            (scenario_state\<lparr>editedImage := Some (png_data_uri (js ''RURJVA==''))\<rparr>))
       = [CallUpscaleImage (js ''RURJVA=='') (js ''image/png'')]"
proof -
  have r: "run True [FileChange (Some [scenario_file]) (js ''blob:photo''),
                     PromptChange scenario_prompt, ClickEdit, EditSettled (Inr (js ''RURJVA==''))]
             initial_config
      = Some \<lparr>ui = scenario_state\<lparr>editedImage := Some (png_data_uri (js ''RURJVA==''))\<rparr>,
              editRuns = 0, upscaleRuns = 0\<rparr>"
    by (simp add: initial_config_def initial_state_def scenario_state_def scenario_prompt_def
        fileInput_disabled_def textarea_disabled_def editButton_disabled_def
        handleFileChange_def handleEdit_entry_def handleEdit_refused_def
        handleEdit_settle_def js_def)
  have d: "decode (png_data_uri (js ''RURJVA=='')) = Inr (js ''RURJVA=='', js ''image/png'')"
    by code_simp
  have u: "snd (handleUpscale scenario_env
                 (scenario_state\<lparr>editedImage := Some (png_data_uri (js ''RURJVA==''))\<rparr>))
      = [CallUpscaleImage (js ''RURJVA=='') (js ''image/png'')]"
    by (simp add: handleUpscale_def handleUpscale_refused_def handleUpscale_try_def d
        png_data_uri_not_Nil scenario_state_def scenario_env_def initial_state_def)
  have f: "file_type scenario_file = js ''image/jpeg''"
    by (simp add: scenario_file_def)
  show ?thesis
    using editedImage_always_png [OF r, of "png_data_uri (js ''RURJVA=='')"] r u f
    by simp
qed

subsection \<open>The stages as state machines\<close>

lemma message_or_not_Nil: "fallback \<noteq> [] \<Longrightarrow> message_or err fallback \<noteq> []"
  by (simp add: message_or_def split: option.splits)

lemma fire_gated_invariant:
  assumes "no_stale (ui c)" and "runs_match_flags c" and "fire True e c = Some c'"
  shows "no_stale (ui c') \<and> runs_match_flags c'"
proof (cases e)
  case (EditSettled out)
  then show ?thesis using assms
    by (cases out)
       (auto simp: no_stale_def runs_match_flags_def handleEdit_settle_def split: if_splits)
next
  case (UpscaleSettled out)
  then show ?thesis using assms
    by (cases out)
       (auto simp: no_stale_def runs_match_flags_def handleUpscale_settle_def split: if_splits)
next
  case (FileChange files url)
  then show ?thesis using assms
    by (auto simp: no_stale_def runs_match_flags_def handleFileChange_def fileInput_disabled_def
        split: if_splits option.splits list.splits)
next
  case ClickEdit
  then show ?thesis using assms
    by (auto simp: no_stale_def runs_match_flags_def handleEdit_entry_def handleEdit_refused_def
        editButton_disabled_def split: if_splits)
next
  case ClickUpscale
  then show ?thesis using assms
    by (auto simp: no_stale_def runs_match_flags_def handleUpscale_entry_def
        upscaleButton_usable_def split: if_splits)
qed (use assms in \<open>auto simp: no_stale_def runs_match_flags_def handleClearCrop_def split: if_splits\<close>)

lemma run_gated_invariant:
  "no_stale (ui c) \<Longrightarrow> runs_match_flags c \<Longrightarrow> run True es c = Some c' \<Longrightarrow>
   no_stale (ui c') \<and> runs_match_flags c'"
proof (induction es arbitrary: c)
  case Nil
  then show ?case by simp
next
  case (Cons e es)
  then show ?case
    by (auto split: option.splits dest: fire_gated_invariant)
qed

lemma follows_stage_status:
  "follows (stage_status l r e) (stage_status l' r' e') \<longleftrightarrow>
     (if l then l' \<or> r' \<noteq> None \<or> e' \<noteq> None
      else l' \<or> (r' = None \<and> e' = None) \<or> (r \<noteq> None \<and> r' \<noteq> None)
           \<or> (r = None \<and> r' = None \<and> e \<noteq> None \<and> e' \<noteq> None))"
  by (simp add: follows_def stage_status_def)

lemma follows_refl: "follows a a"
  by (simp add: follows_def)

lemma fire_Some:
  "fire True (FileChange files url) c = Some c' \<longleftrightarrow>
     \<not> isLoading (ui c) \<and> c' = c\<lparr>ui := handleFileChange (\<lambda>f. url) files (ui c)\<rparr>"
  "fire True ClearCrop c = Some c' \<longleftrightarrow>
     clearCrop_rendered (ui c) \<and> c' = c\<lparr>ui := handleClearCrop (ui c)\<rparr>"
  "fire True (CropChange pc) c = Some c' \<longleftrightarrow>
     reactCrop_rendered (ui c) \<and> c' = c\<lparr>ui := (ui c)\<lparr>crop := Some pc\<rparr>\<rparr>"
  "fire True (CropComplete pc) c = Some c' \<longleftrightarrow>
     reactCrop_rendered (ui c) \<and> c' = c\<lparr>ui := (ui c)\<lparr>completedCrop := Some pc\<rparr>\<rparr>"
  "fire True (PromptChange v) c = Some c' \<longleftrightarrow>
     \<not> isLoading (ui c) \<and> c' = c\<lparr>ui := (ui c)\<lparr>prompt := v\<rparr>\<rparr>"
  "fire True ClickEdit c = Some c' \<longleftrightarrow>
     \<not> isLoading (ui c) \<and> handleEdit_refused (ui c) = None
     \<and> c' = c\<lparr>ui := (ui c)\<lparr>isLoading := True, error := None, editedImage := None,
                            upscaledImage := None, upscaleError := None\<rparr>,
                editRuns := Suc (editRuns c)\<rparr>"
  "fire True (EditSettled out) c = Some c' \<longleftrightarrow>
     editRuns c \<noteq> 0
     \<and> c' = c\<lparr>ui := handleEdit_settle out (ui c), editRuns := editRuns c - 1\<rparr>"
  "fire True ClickUpscale c = Some c' \<longleftrightarrow>
     \<not> handleUpscale_refused (ui c) \<and> \<not> isLoading (ui c) \<and> \<not> isUpscaling (ui c)
     \<and> c' = c\<lparr>ui := (ui c)\<lparr>isUpscaling := True, upscaleError := None, upscaledImage := None\<rparr>,
                upscaleRuns := Suc (upscaleRuns c)\<rparr>"
  "fire True (UpscaleSettled out) c = Some c' \<longleftrightarrow>
     upscaleRuns c \<noteq> 0
     \<and> c' = c\<lparr>ui := handleUpscale_settle out (ui c), upscaleRuns := upscaleRuns c - 1\<rparr>"
  by (auto simp: fileInput_disabled_def textarea_disabled_def editButton_disabled_def
      upscaleButton_usable_def handleEdit_entry_def handleUpscale_entry_def
      handleEdit_refused_def)

lemma handleFileChange_cases:
  "handleFileChange u files s = s \<or>
   (\<exists>orig. handleFileChange u files s =
     s\<lparr>originalImage := orig,
       editedImage := None, error := None, upscaledImage := None, upscaleError := None,
       crop := None, completedCrop := None\<rparr>)"
proof (cases files)
  case None
  then show ?thesis by (simp add: handleFileChange_def)
next
  case (Some fs)
  show ?thesis
  proof (cases fs)
    case Nil
    with Some show ?thesis by (simp add: handleFileChange_def)
  next
    case (Cons f rest)
    with Some have "handleFileChange u files s =
      s\<lparr>originalImage := Some \<lparr>image_file = f, previewUrl = u f\<rparr>,
        editedImage := None, error := None, upscaledImage := None, upscaleError := None,
        crop := None, completedCrop := None\<rparr>"
      by (simp add: handleFileChange_def)
    then show ?thesis by blast
  qed
qed

lemma fire_gated_follows:
  assumes "no_stale (ui c)" and "runs_match_flags c" and "fire True e c = Some c'"
  shows "follows (edit_stage (ui c)) (edit_stage (ui c'))
       \<and> follows (upscale_stage (ui c)) (upscale_stage (ui c'))"
proof (cases e)
  case (FileChange files url)
  with assms(3) have g: "\<not> isLoading (ui c)"
    and c': "ui c' = handleFileChange (\<lambda>f. url) files (ui c)"
    by (simp_all add: fire_Some del: fire.simps)
  from handleFileChange_cases [of "\<lambda>f. url" files "ui c"] show ?thesis
  proof
    assume "handleFileChange (\<lambda>f. url) files (ui c) = ui c"
    then show ?thesis by (simp add: c' follows_refl)
  next
    assume "\<exists>orig. handleFileChange (\<lambda>f. url) files (ui c) =
      (ui c)\<lparr>originalImage := orig,
        editedImage := None, error := None, upscaledImage := None, upscaleError := None,
        crop := None, completedCrop := None\<rparr>"
    then obtain orig where "ui c' =
      (ui c)\<lparr>originalImage := orig,
        editedImage := None, error := None, upscaledImage := None, upscaleError := None,
        crop := None, completedCrop := None\<rparr>"
      unfolding c' by blast
    then show ?thesis
      using g by (simp add: edit_stage_def upscale_stage_def follows_stage_status)
  qed
next
  case ClearCrop
  with assms(3) show ?thesis
    by (simp add: fire_Some edit_stage_def upscale_stage_def handleClearCrop_def follows_refl del: fire.simps)
next
  case (CropChange pc)
  with assms(3) show ?thesis
    by (simp add: fire_Some edit_stage_def upscale_stage_def follows_refl del: fire.simps)
next
  case (CropComplete pc)
  with assms(3) show ?thesis
    by (simp add: fire_Some edit_stage_def upscale_stage_def follows_refl del: fire.simps)
next
  case (PromptChange v)
  with assms(3) show ?thesis
    by (simp add: fire_Some edit_stage_def upscale_stage_def follows_refl del: fire.simps)
next
  case ClickEdit
  with assms(1,3) show ?thesis
    by (simp add: fire_Some edit_stage_def upscale_stage_def follows_stage_status no_stale_def del: fire.simps)
next
  case (EditSettled out)
  with assms(2,3) have l: "isLoading (ui c)"
    and c': "ui c' = handleEdit_settle out (ui c)"
    by (simp_all add: fire_Some runs_match_flags_def del: fire.simps split: if_splits)
  have "message_or err MSG_UNEXPECTED \<noteq> []" for err
    by (simp add: message_or_not_Nil MSG_UNEXPECTED_def)
  then show ?thesis
    using l by (cases out)
      (simp_all add: c' edit_stage_def upscale_stage_def follows_stage_status
         handleEdit_settle_def follows_refl)
next
  case ClickUpscale
  with assms(3) show ?thesis
    by (simp add: fire_Some edit_stage_def upscale_stage_def follows_stage_status follows_refl del: fire.simps)
next
  case (UpscaleSettled out)
  with assms(2,3) have l: "isUpscaling (ui c)"
    and c': "ui c' = handleUpscale_settle out (ui c)"
    by (simp_all add: fire_Some runs_match_flags_def del: fire.simps split: if_splits)
  show ?thesis
    using l by (cases out)
      (simp_all add: c' edit_stage_def upscale_stage_def follows_stage_status
         handleUpscale_settle_def follows_refl)
qed

lemma handleEdit_flags:
  "\<not> isLoading s \<Longrightarrow> \<not> isLoading (fst (handleEdit env s))"
  "isUpscaling (fst (handleEdit env s)) = isUpscaling s"
proof -
  show "\<not> isLoading s \<Longrightarrow> \<not> isLoading (fst (handleEdit env s))"
  proof (cases "handleEdit_refused s")
    case None
    then show ?thesis using handleEdit_started [OF None, of env]
      by (auto simp: handleEdit_settle_fields)
  next
    case (Some msg)
    then show "\<not> isLoading s \<Longrightarrow> ?thesis" by (simp add: handleEdit_not_started)
  qed
  show "isUpscaling (fst (handleEdit env s)) = isUpscaling s"
  proof (cases "handleEdit_refused s")
    case None
    then show ?thesis using handleEdit_started [OF None, of env]
      by (auto simp: handleEdit_settle_fields handleEdit_entry_started)
  next
    case (Some msg)
    then show ?thesis by (simp add: handleEdit_not_started)
  qed
qed

lemma handleUpscale_flags:
  "\<not> isUpscaling s \<Longrightarrow> \<not> isUpscaling (fst (handleUpscale env s))"
  "isLoading (fst (handleUpscale env s)) = isLoading s"
proof -
  show "\<not> isUpscaling s \<Longrightarrow> \<not> isUpscaling (fst (handleUpscale env s))"
  proof (cases "handleUpscale_refused s")
    case False
    then show ?thesis using handleUpscale_started [OF False, of env]
      by (auto simp: handleUpscale_settle_fields)
  next
    case True
    then show "\<not> isUpscaling s \<Longrightarrow> ?thesis" by (simp add: handleUpscale_not_started)
  qed
  show "isLoading (fst (handleUpscale env s)) = isLoading s"
  proof (cases "handleUpscale_refused s")
    case False
    then show ?thesis using handleUpscale_started [OF False, of env]
      by (auto simp: handleUpscale_settle_fields handleUpscale_entry_started)
  next
    case True
    then show ?thesis by (simp add: handleUpscale_not_started)
  qed
qed

lemma perform_idle:
  "\<not> isLoading s \<and> \<not> isUpscaling s \<Longrightarrow>
   \<not> isLoading (perform op s) \<and> \<not> isUpscaling (perform op s)"
proof (cases op)
  case (SelectNewSource files url)
  assume "\<not> isLoading s \<and> \<not> isUpscaling s"
  then show ?thesis using SelectNewSource
    by (simp add: handleFileChange_def split: option.splits list.splits)
qed (simp_all add: handleEdit_flags handleUpscale_flags handleClearCrop_def)

lemma perform_all_idle:
  "\<not> isLoading s \<and> \<not> isUpscaling s \<Longrightarrow>
   \<not> isLoading (perform_all ops s) \<and> \<not> isUpscaling (perform_all ops s)"
proof (induction ops arbitrary: s)
  case Nil
  then show ?case by simp
next
  case (Cons op ops)
  then show ?case using perform_idle [of s op] by simp
qed

lemma entries_no_stale:
  "\<not> isLoading s \<and> \<not> isUpscaling s \<Longrightarrow>
   no_stale (handleEdit_entry s) \<and> no_stale (handleUpscale_entry s)"
  by (simp add: no_stale_def handleEdit_entry_def handleUpscale_entry_def split: option.splits)

lemma idle_edit_run_follows:
  assumes "\<not> isLoading s" and "\<not> isUpscaling s" and "handleEdit_refused s = None"
  shows "follows (edit_stage s) (edit_stage (handleEdit_entry s))"
    and "follows (edit_stage (handleEdit_entry s))
           (edit_stage (handleEdit_settle out (handleEdit_entry s)))"
    and "follows (upscale_stage s) (upscale_stage (handleEdit_entry s))"
    and "upscale_stage (handleEdit_settle out (handleEdit_entry s))
           = upscale_stage (handleEdit_entry s)"
proof -
  note entry = handleEdit_entry_started [OF assms(3)]
  show "follows (edit_stage s) (edit_stage (handleEdit_entry s))"
    using assms(1) by (simp add: entry edit_stage_def follows_stage_status)
  show "follows (upscale_stage s) (upscale_stage (handleEdit_entry s))"
    using assms(2) by (simp add: entry upscale_stage_def follows_stage_status)
  show "upscale_stage (handleEdit_settle out (handleEdit_entry s))
           = upscale_stage (handleEdit_entry s)"
    by (simp add: upscale_stage_def handleEdit_settle_fields)
  have "message_or err MSG_UNEXPECTED \<noteq> []" for err
    by (simp add: message_or_not_Nil MSG_UNEXPECTED_def)
  then show "follows (edit_stage (handleEdit_entry s))
           (edit_stage (handleEdit_settle out (handleEdit_entry s)))"
    by (cases out)
       (simp_all add: entry edit_stage_def follows_stage_status handleEdit_settle_def)
qed

lemma idle_upscale_run_follows:
  assumes "\<not> isLoading s" and "\<not> isUpscaling s" and "\<not> handleUpscale_refused s"
  shows "follows (upscale_stage s) (upscale_stage (handleUpscale_entry s))"
    and "follows (upscale_stage (handleUpscale_entry s))
           (upscale_stage (handleUpscale_settle out (handleUpscale_entry s)))"
    and "edit_stage (handleUpscale_entry s) = edit_stage s"
    and "edit_stage (handleUpscale_settle out (handleUpscale_entry s)) = edit_stage s"
proof -
  note entry = handleUpscale_entry_started [OF assms(3)]
  show "follows (upscale_stage s) (upscale_stage (handleUpscale_entry s))"
    using assms(2) by (simp add: entry upscale_stage_def follows_stage_status)
  show "edit_stage (handleUpscale_entry s) = edit_stage s"
    by (simp add: entry edit_stage_def)
  show "edit_stage (handleUpscale_settle out (handleUpscale_entry s)) = edit_stage s"
    by (simp add: edit_stage_def handleUpscale_settle_fields entry)
  show "follows (upscale_stage (handleUpscale_entry s))
           (upscale_stage (handleUpscale_settle out (handleUpscale_entry s)))"
    by (cases out)
       (simp_all add: entry upscale_stage_def follows_stage_status handleUpscale_settle_def)
qed

lemma idle_file_change_follows:
  assumes "\<not> isLoading s" and "\<not> isUpscaling s"
  shows "follows (edit_stage s) (edit_stage (handleFileChange u files s))"
    and "follows (upscale_stage s) (upscale_stage (handleFileChange u files s))"
proof -
  from handleFileChange_cases [of u files s]
  have "follows (edit_stage s) (edit_stage (handleFileChange u files s))
      \<and> follows (upscale_stage s) (upscale_stage (handleFileChange u files s))"
  proof
    assume "handleFileChange u files s = s"
    then show ?thesis by (simp add: follows_refl)
  next
    assume "\<exists>orig. handleFileChange u files s =
      s\<lparr>originalImage := orig,
        editedImage := None, error := None, upscaledImage := None, upscaleError := None,
        crop := None, completedCrop := None\<rparr>"
    then obtain orig where "handleFileChange u files s =
      s\<lparr>originalImage := orig,
        editedImage := None, error := None, upscaledImage := None, upscaleError := None,
        crop := None, completedCrop := None\<rparr>"
      by blast
    then show ?thesis
      using assms by (simp add: edit_stage_def upscale_stage_def follows_stage_status)
  qed
  then show "follows (edit_stage s) (edit_stage (handleFileChange u files s))"
    and "follows (upscale_stage s) (upscale_stage (handleFileChange u files s))"
    by simp_all
qed

text \<open>
  C9, as stated: in every state reached by any sequence of the operations no stage is
  loading while it holds a result or an error, and each stage follows Idle \<open>\<rightarrow>\<close> Loading
  \<open>\<rightarrow>\<close> {Succeeded, Failed} \<open>\<rightarrow>\<close> Idle. An operation whose check fails writes the error of
  its stage without entering Loading: \<^verbatim>\<open>handleEdit\<close> in the initial state takes the edit
  stage from Idle to Failed. And when nothing is disabled, a refused \<^verbatim>\<open>handleUpscale\<close>
  invoked while an upscale is in flight (the edit that was started in between has
  cleared the edited image) writes its message while \<^verbatim>\<open>isUpscaling\<close> is set.
\<close>

theorem refused_run_breaks_stage_machine_counterexample:
  "edit_stage initial_state = Idle
   \<and> edit_stage (handleEdit_entry initial_state) = Failed
   \<and> edit_stage (perform (RunEdit scenario_env) initial_state) = Failed
   \<and> \<not> follows (edit_stage initial_state)
         (edit_stage (perform (RunEdit scenario_env) initial_state))
   \<and> run False [FileChange (Some [scenario_file]) (js ''blob:photo''),
                 PromptChange scenario_prompt, ClickEdit, EditSettled (Inr (js ''RURJVA=='')),
                 ClickUpscale, ClickEdit, ClickUpscale]
        initial_config
      = Some \<lparr>ui = scenario_state
                    \<lparr>isLoading := True, isUpscaling := True,
                     upscaleError := Some MSG_NOTHING_TO_UPSCALE\<rparr>,
              editRuns = 1, upscaleRuns = 1\<rparr>
   \<and> \<not> no_stale (scenario_state
                     \<lparr>isLoading := True, isUpscaling := True,
                      upscaleError := Some MSG_NOTHING_TO_UPSCALE\<rparr>)"
proof -
  have e: "handleEdit_entry initial_state = initial_state\<lparr>error := Some MSG_NO_IMAGE\<rparr>"
    by (simp add: handleEdit_entry_def handleEdit_refused_def initial_state_def)
  have p: "perform (RunEdit scenario_env) initial_state
      = initial_state\<lparr>error := Some MSG_NO_IMAGE\<rparr>"
    by (simp add: handleEdit_not_started handleEdit_refused_def initial_state_def)
  have s: "edit_stage initial_state = Idle"
    "edit_stage (initial_state\<lparr>error := Some MSG_NO_IMAGE\<rparr>) = Failed"
    by (simp_all add: edit_stage_def stage_status_def initial_state_def)
  have f: "\<not> follows Idle Failed"
    by (simp add: follows_def)
  have r: "run False [FileChange (Some [scenario_file]) (js ''blob:photo''),
                 PromptChange scenario_prompt, ClickEdit, EditSettled (Inr (js ''RURJVA=='')),
                 ClickUpscale, ClickEdit, ClickUpscale]
        initial_config
      = Some \<lparr>ui = scenario_state
                    \<lparr>isLoading := True, isUpscaling := True,
                     upscaleError := Some MSG_NOTHING_TO_UPSCALE\<rparr>,
              editRuns = 1, upscaleRuns = 1\<rparr>"
    by (simp add: initial_config_def initial_state_def scenario_state_def scenario_prompt_def
        handleFileChange_def handleEdit_entry_def handleEdit_refused_def
        handleEdit_settle_def handleUpscale_entry_def handleUpscale_refused_def
        png_data_uri_not_Nil js_def)
  have n: "\<not> no_stale (scenario_state
                     \<lparr>isLoading := True, isUpscaling := True,
                      upscaleError := Some MSG_NOTHING_TO_UPSCALE\<rparr>)"
    by (simp add: no_stale_def)
  have c1: "edit_stage (handleEdit_entry initial_state) = Failed"
    and c2: "edit_stage (perform (RunEdit scenario_env) initial_state) = Failed"
    and c3: "\<not> follows (edit_stage initial_state)
         (edit_stage (perform (RunEdit scenario_env) initial_state))"
    by (simp_all only: e p s f not_False_eq_True)
  show ?thesis
    by (intro conjI s(1) c1 c2 c3 r n)
qed

text \<open>
  C9, amended. (1) In every state the component reaches by the events the page allows
  (the user's actions as the rendered controls enable them, and the settling of runs in
  flight, in any order), a stage whose loading flag is set holds neither a result image
  nor an error message, and every further event moves each stage along Idle \<open>\<rightarrow>\<close> Loading
  \<open>\<rightarrow>\<close> {Succeeded, Failed} \<open>\<rightarrow>\<close> Idle (or back into Loading, or leaves it where it is).
  (2) When the operations are run one after the other in any state, each to its end: no
  stage is loading between operations; the state right after either entry holds nothing
  stale; a run that passes its check moves its own stage into Loading and from there to
  Succeeded or Failed, and an edit run moves the upscale stage along an edge on entry
  and leaves it alone when it settles, while an upscale run leaves the edit stage alone;
  choosing a file moves both stages along an edge and clearing the crop moves neither;
  a run whose check fails only writes the error message of its stage, without Loading.
  (3) In any state, entering Loading clears the stage's result and error.
\<close>

theorem loading_stage_holds_no_result_or_error:
  "(run True es initial_config = Some c \<longrightarrow>
      no_stale (ui c)
      \<and> (\<forall>e c'. fire True e c = Some c' \<longrightarrow>
            no_stale (ui c')
            \<and> follows (edit_stage (ui c)) (edit_stage (ui c'))
            \<and> follows (upscale_stage (ui c)) (upscale_stage (ui c'))))
   \<and> (s0 = perform_all ops initial_state \<longrightarrow>
        \<not> isLoading s0 \<and> \<not> isUpscaling s0 \<and> no_stale s0
        \<and> no_stale (handleEdit_entry s0) \<and> no_stale (handleUpscale_entry s0)
        \<and> (handleEdit_refused s0 = None \<longrightarrow>
              (\<exists>outcome. perform (RunEdit env) s0
                           = handleEdit_settle outcome (handleEdit_entry s0))
              \<and> follows (edit_stage s0) (edit_stage (handleEdit_entry s0))
              \<and> follows (edit_stage (handleEdit_entry s0))
                   (edit_stage (handleEdit_settle out (handleEdit_entry s0)))
              \<and> follows (upscale_stage s0) (upscale_stage (handleEdit_entry s0))
              \<and> upscale_stage (handleEdit_settle out (handleEdit_entry s0))
                   = upscale_stage (handleEdit_entry s0))
        \<and> (\<not> handleUpscale_refused s0 \<longrightarrow>
              (\<exists>outcome. perform (RunUpscale env) s0
                           = handleUpscale_settle outcome (handleUpscale_entry s0))
              \<and> follows (upscale_stage s0) (upscale_stage (handleUpscale_entry s0))
              \<and> follows (upscale_stage (handleUpscale_entry s0))
                   (upscale_stage (handleUpscale_settle out (handleUpscale_entry s0)))
              \<and> edit_stage (handleUpscale_entry s0) = edit_stage s0
              \<and> edit_stage (handleUpscale_settle out (handleUpscale_entry s0)) = edit_stage s0)
        \<and> follows (edit_stage s0) (edit_stage (perform (SelectNewSource files url) s0))
        \<and> follows (upscale_stage s0) (upscale_stage (perform (SelectNewSource files url) s0))
        \<and> edit_stage (perform ResetCrop s0) = edit_stage s0
        \<and> upscale_stage (perform ResetCrop s0) = upscale_stage s0
        \<and> (handleEdit_refused s0 = Some msg \<longrightarrow>
              perform (RunEdit env) s0 = s0\<lparr>error := Some msg\<rparr>)
        \<and> (handleUpscale_refused s0 \<longrightarrow>
              perform (RunUpscale env) s0
                = s0\<lparr>upscaleError := Some MSG_NOTHING_TO_UPSCALE\<rparr>))
   \<and> (handleEdit_refused s = None \<longrightarrow>
        edit_stage (handleEdit_entry s) = Loading
        \<and> editedImage (handleEdit_entry s) = None \<and> error (handleEdit_entry s) = None)
   \<and> (\<not> handleUpscale_refused s' \<longrightarrow>
        upscale_stage (handleUpscale_entry s') = Loading
        \<and> upscaledImage (handleUpscale_entry s') = None
        \<and> upscaleError (handleUpscale_entry s') = None)"
proof -
  have gated: "no_stale (ui c)
      \<and> (\<forall>e c'. fire True e c = Some c' \<longrightarrow>
            no_stale (ui c')
            \<and> follows (edit_stage (ui c)) (edit_stage (ui c'))
            \<and> follows (upscale_stage (ui c)) (upscale_stage (ui c')))"
    if r: "run True es initial_config = Some c"
  proof -
    have "no_stale (ui initial_config)" "runs_match_flags initial_config"
      by (simp_all add: no_stale_def runs_match_flags_def initial_config_def initial_state_def)
    then have inv: "no_stale (ui c) \<and> runs_match_flags c"
      using r by (rule run_gated_invariant)
    then show ?thesis
      using fire_gated_invariant [of c] fire_gated_follows [of c] by blast
  qed
  have whole: "\<not> isLoading s0 \<and> \<not> isUpscaling s0 \<and> no_stale s0
        \<and> no_stale (handleEdit_entry s0) \<and> no_stale (handleUpscale_entry s0)
        \<and> (handleEdit_refused s0 = None \<longrightarrow>
              (\<exists>outcome. perform (RunEdit env) s0
                           = handleEdit_settle outcome (handleEdit_entry s0))
              \<and> follows (edit_stage s0) (edit_stage (handleEdit_entry s0))
              \<and> follows (edit_stage (handleEdit_entry s0))
                   (edit_stage (handleEdit_settle out (handleEdit_entry s0)))
              \<and> follows (upscale_stage s0) (upscale_stage (handleEdit_entry s0))
              \<and> upscale_stage (handleEdit_settle out (handleEdit_entry s0))
                   = upscale_stage (handleEdit_entry s0))
        \<and> (\<not> handleUpscale_refused s0 \<longrightarrow>
              (\<exists>outcome. perform (RunUpscale env) s0
                           = handleUpscale_settle outcome (handleUpscale_entry s0))
              \<and> follows (upscale_stage s0) (upscale_stage (handleUpscale_entry s0))
              \<and> follows (upscale_stage (handleUpscale_entry s0))
                   (upscale_stage (handleUpscale_settle out (handleUpscale_entry s0)))
              \<and> edit_stage (handleUpscale_entry s0) = edit_stage s0
              \<and> edit_stage (handleUpscale_settle out (handleUpscale_entry s0)) = edit_stage s0)
        \<and> follows (edit_stage s0) (edit_stage (perform (SelectNewSource files url) s0))
        \<and> follows (upscale_stage s0) (upscale_stage (perform (SelectNewSource files url) s0))
        \<and> edit_stage (perform ResetCrop s0) = edit_stage s0
        \<and> upscale_stage (perform ResetCrop s0) = upscale_stage s0
        \<and> (handleEdit_refused s0 = Some msg \<longrightarrow>
              perform (RunEdit env) s0 = s0\<lparr>error := Some msg\<rparr>)
        \<and> (handleUpscale_refused s0 \<longrightarrow>
              perform (RunUpscale env) s0
                = s0\<lparr>upscaleError := Some MSG_NOTHING_TO_UPSCALE\<rparr>)"
    if s0: "s0 = perform_all ops initial_state"
  proof -
    have idle: "\<not> isLoading s0 \<and> \<not> isUpscaling s0"
      unfolding s0 by (rule perform_all_idle) (simp add: initial_state_def)
    then have l: "\<not> isLoading s0" and u: "\<not> isUpscaling s0" by simp_all
    have stale: "no_stale s0" using idle by (simp add: no_stale_def)
    note entries = entries_no_stale [OF idle]
    have edit: "(\<exists>outcome. perform (RunEdit env) s0
                           = handleEdit_settle outcome (handleEdit_entry s0))
              \<and> follows (edit_stage s0) (edit_stage (handleEdit_entry s0))
              \<and> follows (edit_stage (handleEdit_entry s0))
                   (edit_stage (handleEdit_settle out (handleEdit_entry s0)))
              \<and> follows (upscale_stage s0) (upscale_stage (handleEdit_entry s0))
              \<and> upscale_stage (handleEdit_settle out (handleEdit_entry s0))
                   = upscale_stage (handleEdit_entry s0)"
      if a: "handleEdit_refused s0 = None"
      using handleEdit_started [OF a, of env] idle_edit_run_follows [OF l u a]
      by auto
    have upscale: "(\<exists>outcome. perform (RunUpscale env) s0
                           = handleUpscale_settle outcome (handleUpscale_entry s0))
              \<and> follows (upscale_stage s0) (upscale_stage (handleUpscale_entry s0))
              \<and> follows (upscale_stage (handleUpscale_entry s0))
                   (upscale_stage (handleUpscale_settle out (handleUpscale_entry s0)))
              \<and> edit_stage (handleUpscale_entry s0) = edit_stage s0
              \<and> edit_stage (handleUpscale_settle out (handleUpscale_entry s0)) = edit_stage s0"
      if a: "\<not> handleUpscale_refused s0"
      using handleUpscale_started [OF a, of env] idle_upscale_run_follows [OF l u a]
      by auto
    have select: "follows (edit_stage s0) (edit_stage (perform (SelectNewSource files url) s0))"
      "follows (upscale_stage s0) (upscale_stage (perform (SelectNewSource files url) s0))"
      using idle_file_change_follows [OF l u] by simp_all
    have reset: "edit_stage (perform ResetCrop s0) = edit_stage s0"
      "upscale_stage (perform ResetCrop s0) = upscale_stage s0"
      by (simp_all add: handleClearCrop_def edit_stage_def upscale_stage_def)
    have refused: "handleEdit_refused s0 = Some msg \<longrightarrow>
              perform (RunEdit env) s0 = s0\<lparr>error := Some msg\<rparr>"
      "handleUpscale_refused s0 \<longrightarrow>
              perform (RunUpscale env) s0
                = s0\<lparr>upscaleError := Some MSG_NOTHING_TO_UPSCALE\<rparr>"
      by (simp_all add: handleEdit_not_started handleUpscale_not_started)
    show ?thesis
      using idle stale entries edit upscale select reset refused by blast
  qed
  have enter_edit: "edit_stage (handleEdit_entry s) = Loading
        \<and> editedImage (handleEdit_entry s) = None \<and> error (handleEdit_entry s) = None"
    if "handleEdit_refused s = None"
    using that by (simp add: handleEdit_entry_started edit_stage_def stage_status_def)
  have enter_upscale: "upscale_stage (handleUpscale_entry s') = Loading
        \<and> upscaledImage (handleUpscale_entry s') = None
        \<and> upscaleError (handleUpscale_entry s') = None"
    if "\<not> handleUpscale_refused s'"
    using that by (simp add: handleUpscale_entry_started upscale_stage_def stage_status_def)
  show ?thesis
    using gated whole enter_edit enter_upscale by blast
qed

text \<open>
  C9, amended, in the scenario: after the file, the prompt and a click on edit the edit
  stage is loading and holds nothing; when the run settles with a result the stage has
  succeeded. Run as a whole operation in the state with the file and the prompt, the
  edit passes its check.
\<close>

theorem loading_stage_holds_no_result_or_error_witness:
  "run True [FileChange (Some [scenario_file]) (js ''blob:photo''), PromptChange scenario_prompt,
             ClickEdit]
     initial_config
   = Some \<lparr>ui = scenario_state\<lparr>isLoading := True\<rparr>, editRuns = 1, upscaleRuns = 0\<rparr>
   \<and> fire True (EditSettled (Inr (js ''RURJVA=='')))
        \<lparr>ui = scenario_state\<lparr>isLoading := True\<rparr>, editRuns = 1, upscaleRuns = 0\<rparr>
     = Some \<lparr>ui = scenario_state\<lparr>editedImage := Some (png_data_uri (js ''RURJVA==''))\<rparr>,
             editRuns = 0, upscaleRuns = 0\<rparr>
   \<and> no_stale (scenario_state\<lparr>isLoading := True\<rparr>)
   \<and> edit_stage (scenario_state\<lparr>isLoading := True\<rparr>) = Loading
   \<and> edit_stage (scenario_state\<lparr>editedImage := Some (png_data_uri (js ''RURJVA==''))\<rparr>)
       = Succeeded
   \<and> follows (edit_stage (scenario_state\<lparr>isLoading := True\<rparr>))
        (edit_stage (scenario_state\<lparr>editedImage := Some (png_data_uri (js ''RURJVA==''))\<rparr>))
   \<and> scenario_state
       = perform_all [SelectNewSource (Some [scenario_file]) (js ''blob:photo''),
                      SetPrompt scenario_prompt] initial_state
   \<and> handleEdit_refused scenario_state = None
   \<and> follows (edit_stage scenario_state) (edit_stage (handleEdit_entry scenario_state))
   \<and> handleUpscale_refused scenario_state
   \<and> \<not> handleUpscale_refused
         (scenario_state\<lparr>editedImage := Some (png_data_uri (js ''RURJVA==''))\<rparr>)"
proof -
  let ?cL = "\<lparr>ui = scenario_state\<lparr>isLoading := True\<rparr>, editRuns = 1, upscaleRuns = 0\<rparr>"
  let ?cS = "\<lparr>ui = scenario_state\<lparr>editedImage := Some (png_data_uri (js ''RURJVA==''))\<rparr>,
              editRuns = 0, upscaleRuns = 0\<rparr>"
  let ?ops = "[SelectNewSource (Some [scenario_file]) (js ''blob:photo''),
               SetPrompt scenario_prompt]"
  have r: "run True [FileChange (Some [scenario_file]) (js ''blob:photo''),
                     PromptChange scenario_prompt, ClickEdit]
             initial_config = Some ?cL"
    by (simp add: initial_config_def initial_state_def scenario_state_def scenario_prompt_def
        fileInput_disabled_def textarea_disabled_def editButton_disabled_def
        handleFileChange_def handleEdit_entry_def handleEdit_refused_def js_def)
  have f: "fire True (EditSettled (Inr (js ''RURJVA==''))) ?cL = Some ?cS"
    by (simp add: handleEdit_settle_def scenario_state_def initial_state_def)
  have st: "edit_stage (scenario_state\<lparr>isLoading := True\<rparr>) = Loading"
    "edit_stage (scenario_state\<lparr>editedImage := Some (png_data_uri (js ''RURJVA==''))\<rparr>)
       = Succeeded"
    by (simp_all add: edit_stage_def stage_status_def scenario_state_def initial_state_def)
  have p: "handleEdit_refused scenario_state = None"
    "handleUpscale_refused scenario_state"
    "\<not> handleUpscale_refused
         (scenario_state\<lparr>editedImage := Some (png_data_uri (js ''RURJVA==''))\<rparr>)"
    by (simp_all add: handleEdit_refused_def handleUpscale_refused_def png_data_uri_not_Nil
        scenario_state_def initial_state_def scenario_prompt_def js_def)
  have o: "scenario_state = perform_all ?ops initial_state"
    by (simp add: scenario_state_def initial_state_def handleFileChange_def)
  note t = loading_stage_holds_no_result_or_error
            [where es = "[FileChange (Some [scenario_file]) (js ''blob:photo''),
                          PromptChange scenario_prompt, ClickEdit]"
               and c = ?cL and ops = ?ops and ?s0.0 = scenario_state and s = scenario_state
               and s' = "scenario_state\<lparr>editedImage := Some (png_data_uri (js ''RURJVA==''))\<rparr>"
               and env = scenario_env and out = "Inr []" and files = None and url = "[]"
               and msg = "[]"]
  have a: "no_stale (ui ?cL)"
    and b: "\<forall>e c'. fire True e ?cL = Some c' \<longrightarrow>
            no_stale (ui c')
            \<and> follows (edit_stage (ui ?cL)) (edit_stage (ui c'))
            \<and> follows (upscale_stage (ui ?cL)) (upscale_stage (ui c'))"
    and w: "follows (edit_stage scenario_state) (edit_stage (handleEdit_entry scenario_state))"
    using t r o p(1) by blast+
  have "follows (edit_stage (ui ?cL)) (edit_stage (ui ?cS))"
    using b f by blast
  then show ?thesis
    using a w r f st p o by simp
qed

end
